theory Spec2Isabelle
  imports Complex_Main
begin

section \<open>Data model of the quiz application\<close>

text \<open>
  The application keeps one module-level state object (\<^verbatim>\<open>state.js\<close>) that every
  operation reads and mutates. The embedding passes that object explicitly: each
  operation takes the state and returns the new one. The two impure inputs of the
  program are parameters: \<open>now\<close> is the value \<^verbatim>\<open>Date.now()\<close> returns during one
  synchronous call (milliseconds), and \<open>rnd\<close> is the sequence of values
  \<^verbatim>\<open>Math.random()\<close> returns, read through a counter.
  JavaScript numbers that hold counts, levels, positions and timestamps are integers
  here; an absent property (\<^verbatim>\<open>undefined\<close> or \<^verbatim>\<open>null\<close>) is \<open>None\<close>. Where the code
  multiplies, divides or adds numbers that are not integers, the model rounds each
  result as double-precision arithmetic does (\<open>binary64\<close> below).
\<close>

datatype Mode = LEARNING | EXAM | SMART

datatype RoundType =
  BASE | REVIEW_WRONG | REVIEW_NOT_SURE | REVIEW_DONT_KNOW | REVIEW_ALL | REVIEW_WEAK

datatype Status = Unanswered | Correct | Wrong

record QuestionData =
  number :: int
  question :: string
  answers :: "(string \<times> string) list"
  correct :: "string list"

record QuestionState =
  selectedAnswer :: "string option"
  status :: Status
  dontKnow :: bool
  notSure :: bool
  time :: int

record SpacedRepData =
  level :: int
  lastSeen :: int
  seenCount :: int
  lastSeenPosition :: "int option"

record QuestionMeta =
  flagged :: bool
  noteText :: string

record HistoryEntry =
  h_date :: int
  h_mode :: "Mode option"
  h_total :: int
  h_correct :: int
  h_pct :: int
  h_avgTime :: int

record ExamResults =
  r_total :: int
  r_correct :: int
  r_pct :: int
  r_passed :: bool

record ExamQuestion =
  eq_qid :: int
  eq_answer :: "string option"
  eq_correct :: bool

text \<open>The object \<^verbatim>\<open>finishExam\<close> hands to \<^verbatim>\<open>addExamHistory\<close>.\<close>

record ExamResult =
  x_date :: int
  x_mode :: "Mode option"
  x_examIndex :: "int option"
  x_duration :: int
  x_results :: ExamResults
  x_questions :: "ExamQuestion list"

text \<open>
  A stored exam-history record: the fields of the result, spread, after an id. The id
  is the string \<^verbatim>\<open>'exam_' + Date.now()\<close>; the model keeps the number that follows
  the fixed prefix.
\<close>

record ExamHistoryRecord =
  e_id :: int
  e_date :: int
  e_mode :: "Mode option"
  e_examIndex :: "int option"
  e_duration :: int
  e_results :: ExamResults
  e_questions :: "ExamQuestion list"

text \<open>
  The state object. A JavaScript \<^verbatim>\<open>Set\<close> is the list of its members in insertion
  order. The handles of browser timers (\<^verbatim>\<open>timerInterval\<close>) are not part of the model.
\<close>

record AppState =
  questions :: "int \<rightharpoonup> QuestionData"
  allQuestionIds :: "int list"
  exams :: "int list list"
  stack :: "int list"
  currentIndex :: nat
  questionState :: "int \<rightharpoonup> QuestionState"
  answerOrder :: "int \<rightharpoonup> (string \<times> string) list"
  baseStack :: "int list option"
  baseState :: "(int \<rightharpoonup> QuestionState) option"
  examStartTime :: "int option"
  questionStartTime :: "int option"
  currentMode :: "Mode option"
  currentRoundType :: RoundType
  selectedExamIndex :: "int option"
  completedLearning :: "int list"
  completedExam :: "int list"
  history :: "HistoryEntry list"
  wrongCounts :: "int \<rightharpoonup> int"
  questionMeta :: "int \<rightharpoonup> QuestionMeta"
  spacedRepetition :: "int \<rightharpoonup> SpacedRepData"
  examHistory :: "ExamHistoryRecord list"
  syncId :: "string option"
  isOnline :: bool
  isSaving :: bool
  lastCloudTimestamp :: int

text \<open>The initial value of the state object in \<^verbatim>\<open>state.js\<close>.\<close>

definition initialState :: AppState where
  "initialState =
     \<lparr> questions = Map.empty, allQuestionIds = [], exams = [], stack = [],
       currentIndex = 0, questionState = Map.empty, answerOrder = Map.empty,
       baseStack = None, baseState = None, examStartTime = None,
       questionStartTime = None, currentMode = None, currentRoundType = BASE,
       selectedExamIndex = None, completedLearning = [], completedExam = [],
       history = [], wrongCounts = Map.empty, questionMeta = Map.empty,
       spacedRepetition = Map.empty, examHistory = [], syncId = None,
       isOnline = False, isSaving = False, lastCloudTimestamp = 0 \<rparr>"

subsection \<open>JavaScript idioms\<close>

text \<open>\<^verbatim>\<open>new Set(array)\<close>: the members are added in order, a repeated one is skipped.\<close>

definition Set_add :: "'a list \<Rightarrow> 'a \<Rightarrow> 'a list" where
  "Set_add acc x = (if x \<in> set acc then acc else acc @ [x])"

definition new_Set :: "'a list \<Rightarrow> 'a list" where
  "new_Set xs = foldl Set_add [] xs"

text \<open>Truthiness of a value that is a string or absent: the empty string is falsy.\<close>

fun truthy_str :: "string option \<Rightarrow> bool" where
  "truthy_str None = False"
| "truthy_str (Some a) = (a \<noteq> [])"

text \<open>Truthiness of a value that is a number or absent: zero is falsy.\<close>

fun truthy_num :: "int option \<Rightarrow> bool" where
  "truthy_num None = False"
| "truthy_num (Some n) = (n \<noteq> 0)"

text \<open>
  \<^verbatim>\<open>Math.round(a / b)\<close> for integers \<open>a\<close> and \<open>b > 0\<close>: halves round up. The
  quotient of two integers is nearer to any other half-integer than a double's
  rounding error, so the rounding of the division does not change the result.
\<close>

definition round_div :: "int \<Rightarrow> int \<Rightarrow> int" where
  "round_div a b = (2 * a + b) div (2 * b)"

subsection \<open>Double-precision numbers\<close>

text \<open>
  A JavaScript number is an IEEE 754 double, and every arithmetic operation returns the
  double nearest to the exact result, a tie going to the double with an even
  significand. \<open>binary64\<close> is that rounding of a real number: the exponent of the
  number's binade (not below -1022, where the subnormal doubles begin), the spacing of
  the doubles there (53 significant bits), and the nearest multiple of the spacing.
  Magnitudes of \<open>2^1024\<close> and more, which would round to infinity, do not occur in
  this program.
\<close>

definition pow2 :: "int \<Rightarrow> real" where
  "pow2 e = 2 powr real_of_int e"

definition expo :: "real \<Rightarrow> int" where
  "expo x = max \<lfloor>log 2 \<bar>x\<bar>\<rfloor> (- 1022)"

definition ulp :: "real \<Rightarrow> real" where
  "ulp x = pow2 (expo x - 52)"

definition nearestEven :: "real \<Rightarrow> int" where
  "nearestEven y =
     (let f = \<lfloor>y\<rfloor>; d = y - of_int f
      in if d < 1 / 2 then f else if 1 / 2 < d then f + 1
         else if even f then f else f + 1)"

definition binary64 :: "real \<Rightarrow> real" where
  "binary64 x =
     (if x = 0 then 0 else sgn x * (of_int (nearestEven (\<bar>x\<bar> / ulp x)) * ulp x))"

definition isDouble :: "real \<Rightarrow> bool" where
  "isDouble x = (binary64 x = x)"

text \<open>
  \<^verbatim>\<open>Math.round((part / total) * 100)\<close>: the quotient and the product are each
  rounded to a double, and \<^verbatim>\<open>Math.round\<close> takes the nearest integer, halves going up.
\<close>

definition percentOf :: "int \<Rightarrow> int \<Rightarrow> int" where
  "percentOf part tot =
     \<lfloor>binary64 (binary64 (real_of_int part / real_of_int tot) * 100) + 1 / 2\<rfloor>"

section \<open>State accessors (state.js)\<close>

definition getCurrentQuestionId :: "AppState \<Rightarrow> int option" where
  "getCurrentQuestionId s =
     (if currentIndex s < length (stack s) then Some (stack s ! currentIndex s) else None)"

definition getQuestion :: "AppState \<Rightarrow> int \<Rightarrow> QuestionData option" where
  "getQuestion s qid = questions s qid"

definition getCurrentQuestion :: "AppState \<Rightarrow> QuestionData option" where
  "getCurrentQuestion s =
     (case getCurrentQuestionId s of
        None \<Rightarrow> None
      | Some qid \<Rightarrow> if qid \<noteq> 0 then questions s qid else None)"

definition getQuestionState :: "AppState \<Rightarrow> int \<Rightarrow> QuestionState option" where
  "getQuestionState s qid = questionState s qid"

definition isLearningMode :: "AppState \<Rightarrow> bool" where
  "isLearningMode s = (currentMode s = Some LEARNING)"

definition setRoundType :: "RoundType \<Rightarrow> AppState \<Rightarrow> AppState" where
  "setRoundType ty s = s\<lparr>currentRoundType := ty\<rparr>"

text \<open>
  \<^verbatim>\<open>updateQuestionState\<close> spreads the stored object and then the updates. Every
  caller passes all five fields, so the result is the object passed.
\<close>

definition updateQuestionState :: "int \<Rightarrow> QuestionState \<Rightarrow> AppState \<Rightarrow> AppState" where
  "updateQuestionState qid updates s = s\<lparr>questionState := (questionState s)(qid \<mapsto> updates)\<rparr>"

definition incrementWrongCount :: "int \<Rightarrow> AppState \<Rightarrow> AppState" where
  "incrementWrongCount qid s =
     s\<lparr>wrongCounts := (wrongCounts s)(qid \<mapsto>
        (case wrongCounts s qid of None \<Rightarrow> 0 | Some c \<Rightarrow> c) + 1)\<rparr>"

definition initStack :: "int list \<Rightarrow> AppState \<Rightarrow> AppState" where
  "initStack questionIds s =
     s\<lparr>stack := questionIds, currentIndex := 0,
       questionState := Map.empty, answerOrder := Map.empty\<rparr>"

definition saveBaseState :: "AppState \<Rightarrow> AppState" where
  "saveBaseState s = s\<lparr>baseState := Some (questionState s), baseStack := Some (stack s)\<rparr>"

definition markExamCompleted :: "AppState \<Rightarrow> AppState" where
  "markExamCompleted s =
     (case selectedExamIndex s of
        None \<Rightarrow> s
      | Some idx \<Rightarrow>
          if currentMode s = Some EXAM
          then s\<lparr>completedExam := Set_add (completedExam s) idx\<rparr>
          else s\<lparr>completedLearning := Set_add (completedLearning s) idx\<rparr>)"

definition addHistoryEntry :: "HistoryEntry \<Rightarrow> AppState \<Rightarrow> AppState" where
  "addHistoryEntry entry s = s\<lparr>history := history s @ [entry]\<rparr>"

subsection \<open>Spaced-repetition records\<close>

definition getSpacedRepData :: "AppState \<Rightarrow> int \<Rightarrow> SpacedRepData" where
  "getSpacedRepData s qid =
     (case spacedRepetition s qid of
        Some d \<Rightarrow> d
      | None \<Rightarrow> \<lparr>level = 0, lastSeen = 0, seenCount = 0, lastSeenPosition = None\<rparr>)"

subsection \<open>Detailed exam history\<close>

text \<open>
  \<^verbatim>\<open>addExamHistory\<close> pushes the record and, when the list has grown past 50, keeps
  \<^verbatim>\<open>slice(-50)\<close>: the last 50 elements.
\<close>

definition slice_last :: "nat \<Rightarrow> 'a list \<Rightarrow> 'a list" where
  "slice_last n xs = drop (length xs - n) xs"

definition withId :: "int \<Rightarrow> ExamResult \<Rightarrow> ExamHistoryRecord" where
  "withId i r =
     \<lparr> e_id = i, e_date = x_date r, e_mode = x_mode r, e_examIndex = x_examIndex r,
       e_duration = x_duration r, e_results = x_results r, e_questions = x_questions r \<rparr>"

definition addExamHistory :: "ExamResult \<Rightarrow> int \<Rightarrow> AppState \<Rightarrow> AppState" where
  "addExamHistory examResult now s =
     (let pushed = examHistory s @ [withId now examResult] in
      if length pushed > 50
      then s\<lparr>examHistory := slice_last 50 pushed\<rparr>
      else s\<lparr>examHistory := pushed\<rparr>)"

section \<open>Timers (timer.js)\<close>

definition resetQuestionTimer :: "int \<Rightarrow> AppState \<Rightarrow> AppState" where
  "resetQuestionTimer now s = s\<lparr>questionStartTime := Some now\<rparr>"

text \<open>\<^verbatim>\<open>Math.round((Date.now() - startTime) / 1000)\<close>, or 0 without a start time.\<close>

definition getQuestionElapsed :: "int \<Rightarrow> AppState \<Rightarrow> int" where
  "getQuestionElapsed now s =
     (case questionStartTime s of
        None \<Rightarrow> 0
      | Some st \<Rightarrow> if st = 0 then 0 else round_div (now - st) 1000)"

text \<open>\<^verbatim>\<open>Math.floor((Date.now() - startTime) / 1000)\<close>, or 0 without a start time.\<close>

definition getExamElapsed :: "int \<Rightarrow> AppState \<Rightarrow> int" where
  "getExamElapsed now s =
     (case examStartTime s of
        None \<Rightarrow> 0
      | Some st \<Rightarrow> if st = 0 then 0 else (now - st) div 1000)"

section \<open>Quiz logic (quiz.js)\<close>

text \<open>\<^verbatim>\<open>a || b\<close> on values that are strings or absent.\<close>

definition or_str :: "string option \<Rightarrow> string option \<Rightarrow> string option" where
  "or_str a b = (if truthy_str a then a else b)"

text \<open>
  \<^verbatim>\<open>existing?.status && existing.status !== 'unanswered'\<close>: the question has a
  stored state whose status is terminal.
\<close>

definition answered :: "QuestionState option \<Rightarrow> bool" where
  "answered existing = (case existing of None \<Rightarrow> False | Some e \<Rightarrow> status e \<noteq> Unanswered)"

definition updateDraftState :: "string option \<Rightarrow> bool \<Rightarrow> bool \<Rightarrow> AppState \<Rightarrow> AppState" where
  "updateDraftState selected dkFlag nsFlag s =
     (case getCurrentQuestionId s of
        None \<Rightarrow> s
      | Some qid \<Rightarrow>
          if qid = 0 then s
          else
            let existing = getQuestionState s qid in
            if isLearningMode s \<and> answered existing then s
            else updateQuestionState qid
                   \<lparr> selectedAnswer =
                       or_str (or_str selected
                                 (case existing of None \<Rightarrow> None | Some e \<Rightarrow> selectedAnswer e))
                              None,
                     status = (case existing of None \<Rightarrow> Unanswered | Some e \<Rightarrow> status e),
                     dontKnow = dkFlag,
                     notSure = nsFlag,
                     time = (case existing of None \<Rightarrow> 0 | Some e \<Rightarrow> time e) \<rparr> s)"

definition checkCurrentQuestion :: "string option \<Rightarrow> int \<Rightarrow> AppState \<Rightarrow> bool \<times> AppState" where
  "checkCurrentQuestion selected now s =
     (case selected of
        None \<Rightarrow> (False, s)
      | Some letter \<Rightarrow>
          if letter = [] then (False, s)
          else
            (case getCurrentQuestionId s of
               None \<Rightarrow> (False, s)
             | Some qid \<Rightarrow>
                 (case getCurrentQuestion s of
                    None \<Rightarrow> (False, s)
                  | Some q \<Rightarrow>
                      if qid = 0 then (False, s)
                      else
                        let timeSpent = getQuestionElapsed now s;
                            isCorrect = (letter \<in> set (correct q));
                            existing = getQuestionState s qid;
                            s1 = updateQuestionState qid
                                   \<lparr> selectedAnswer = Some letter,
                                     status = (if isCorrect then Correct else Wrong),
                                     dontKnow = (case existing of None \<Rightarrow> False
                                                 | Some e \<Rightarrow> dontKnow e),
                                     notSure = (case existing of None \<Rightarrow> False
                                                | Some e \<Rightarrow> notSure e),
                                     time = timeSpent \<rparr> s
                        in (True, if \<not> isCorrect then incrementWrongCount qid s1 else s1))))"

record ExamStats =
  correctCount :: int
  wrong :: "int list"
  dk :: "int list"
  ns :: "int list"
  correctButNotSure :: "int list"
  totalTime :: int

definition emptyStats :: ExamStats where
  "emptyStats =
     \<lparr>correctCount = 0, wrong = [], dk = [], ns = [], correctButNotSure = [], totalTime = 0\<rparr>"

text \<open>The body of the \<^verbatim>\<open>forEach\<close> of \<^verbatim>\<open>computeStats\<close>, on the six accumulators.\<close>

definition stats_step :: "(int \<rightharpoonup> QuestionState) \<Rightarrow> ExamStats \<Rightarrow> int \<Rightarrow> ExamStats" where
  "stats_step qs acc qid =
     (case qs qid of
        None \<Rightarrow> acc
      | Some st \<Rightarrow>
          if status st = Unanswered then acc
          else
            let a1 = (if dontKnow st then acc\<lparr>dk := dk acc @ [qid]\<rparr> else acc);
                a2 = (if notSure st then a1\<lparr>ns := ns a1 @ [qid]\<rparr> else a1);
                a3 = a2\<lparr>totalTime := totalTime a2 + time st\<rparr>
            in if status st = Correct
               then (let a4 = a3\<lparr>correctCount := correctCount a3 + 1\<rparr>
                     in if notSure st
                        then a4\<lparr>correctButNotSure := correctButNotSure a4 @ [qid]\<rparr>
                        else a4)
               else a3\<lparr>wrong := wrong a3 @ [qid]\<rparr>)"

definition computeStats :: "(int \<rightharpoonup> QuestionState) \<Rightarrow> int list \<Rightarrow> ExamStats" where
  "computeStats qs questionIds = foldl (stats_step qs) emptyStats questionIds"

definition calcPercent :: "int \<Rightarrow> int \<Rightarrow> int" where
  "calcPercent part tot = (if tot = 0 then 0 else percentOf part tot)"

definition PASS_THRESHOLD :: int where "PASS_THRESHOLD = 72"

definition isPassed :: "int \<Rightarrow> int \<Rightarrow> bool" where
  "isPassed c tot = (calcPercent c tot \<ge> PASS_THRESHOLD)"

definition startRound :: "RoundType \<Rightarrow> int list option \<Rightarrow> int \<Rightarrow> AppState \<Rightarrow> bool \<times> AppState" where
  "startRound roundType questionIds now s =
     (case questionIds of
        None \<Rightarrow> (False, s)
      | Some ids \<Rightarrow>
          if length ids = 0 then (False, s)
          else (True, resetQuestionTimer now (initStack ids (setRoundType roundType s))))"

text \<open>
  \<^verbatim>\<open>finishExam\<close> of quiz.js. The cloud save it schedules (\<^verbatim>\<open>saveAll\<close>) runs later,
  outside this call.
\<close>

definition quiz_finishExam ::
  "RoundType \<Rightarrow> (int \<rightharpoonup> QuestionState) \<Rightarrow> int list \<Rightarrow> Mode option \<Rightarrow> int option
     \<Rightarrow> int \<Rightarrow> AppState \<Rightarrow> AppState" where
  "quiz_finishExam roundType qs stk mode examIdx now s =
     (if roundType = BASE
      then
        let s1 = saveBaseState s;
            s2 = (if examIdx \<noteq> None then markExamCompleted s1 else s1);
            stats = computeStats qs stk;
            tot = int (length stk);
            pct = calcPercent (correctCount stats) tot;
            avgTime = (if tot \<noteq> 0 then round_div (totalTime stats) tot else 0)
        in addHistoryEntry
             \<lparr> h_date = now, h_mode = mode, h_total = tot,
               h_correct = correctCount stats, h_pct = pct, h_avgTime = avgTime \<rparr> s2
      else s)"

definition getReviewQuestions ::
  "(int \<rightharpoonup> QuestionState) option \<Rightarrow> int list option \<Rightarrow> RoundType \<Rightarrow> int list" where
  "getReviewQuestions bState bStack reviewType =
     (case bState of
        None \<Rightarrow> []
      | Some qs \<Rightarrow>
          (case bStack of
             None \<Rightarrow> []
           | Some stk \<Rightarrow>
               let stats = computeStats qs stk in
               (case reviewType of
                  REVIEW_WRONG \<Rightarrow> wrong stats
                | REVIEW_NOT_SURE \<Rightarrow> ns stats
                | REVIEW_DONT_KNOW \<Rightarrow> dk stats
                | REVIEW_ALL \<Rightarrow> new_Set (wrong stats @ dk stats @ ns stats)
                | _ \<Rightarrow> [])))"

section \<open>Cloud synchronisation (storage.js, state.js)\<close>

text \<open>
  The document read from the remote store. Every property may be absent. Arrays and
  objects are truthy in JavaScript even when empty, so the test \<^verbatim>\<open>if (data.f)\<close>
  on such a property is a test of presence.
\<close>

record CloudData =
  c_timestamp :: "int option"
  c_completedLearning :: "int list option"
  c_completedExam :: "int list option"
  c_history :: "HistoryEntry list option"
  c_wrongCounts :: "(int \<rightharpoonup> int) option"
  c_exams :: "int list list option"
  c_questionMeta :: "(int \<rightharpoonup> QuestionMeta) option"
  c_spacedRepetition :: "(int \<rightharpoonup> SpacedRepData) option"
  c_examHistory :: "ExamHistoryRecord list option"

definition applyData :: "CloudData option \<Rightarrow> AppState \<Rightarrow> AppState" where
  "applyData dataOpt s =
     (case dataOpt of
        None \<Rightarrow> s
      | Some d \<Rightarrow>
          let s1 = (case c_completedLearning d of None \<Rightarrow> s
                    | Some v \<Rightarrow> s\<lparr>completedLearning := new_Set v\<rparr>);
              s2 = (case c_completedExam d of None \<Rightarrow> s1
                    | Some v \<Rightarrow> s1\<lparr>completedExam := new_Set v\<rparr>);
              s3 = (case c_history d of None \<Rightarrow> s2 | Some v \<Rightarrow> s2\<lparr>history := v\<rparr>);
              s4 = (case c_wrongCounts d of None \<Rightarrow> s3 | Some v \<Rightarrow> s3\<lparr>wrongCounts := v\<rparr>);
              s5 = (case c_exams d of None \<Rightarrow> s4
                    | Some v \<Rightarrow> if length v \<noteq> 0 then s4\<lparr>exams := v\<rparr> else s4);
              s6 = (case c_questionMeta d of None \<Rightarrow> s5 | Some v \<Rightarrow> s5\<lparr>questionMeta := v\<rparr>);
              s7 = (case c_spacedRepetition d of None \<Rightarrow> s6
                    | Some v \<Rightarrow> s6\<lparr>spacedRepetition := v\<rparr>);
              s8 = (case c_examHistory d of None \<Rightarrow> s7 | Some v \<Rightarrow> s7\<lparr>examHistory := v\<rparr>)
          in s8\<lparr>lastCloudTimestamp := (case c_timestamp d of None \<Rightarrow> 0 | Some ts \<Rightarrow> ts)\<rparr>)"

text \<open>
  The handler of a remote update; its argument is \<^verbatim>\<open>snapshot.val()\<close>. The
  notification of the user interface that follows a merge is outside the model.
\<close>

definition onCloudDataChange :: "CloudData option \<Rightarrow> AppState \<Rightarrow> AppState" where
  "onCloudDataChange snapshotVal s =
     (if isSaving s then s
      else
        (case snapshotVal of
           None \<Rightarrow> s
         | Some d \<Rightarrow>
             (case c_timestamp d of
                None \<Rightarrow> s
              | Some ts \<Rightarrow>
                  if ts \<noteq> 0 \<and> ts > lastCloudTimestamp s
                  then applyData (Some d) s
                  else s)))"

section \<open>Spaced repetition (smart.js)\<close>

text \<open>The constants of \<^verbatim>\<open>SPACED_REP_CONFIG\<close>.\<close>

definition MAX_LEVEL :: int where "MAX_LEVEL = 5"
definition CORRECT_SURE :: int where "CORRECT_SURE = 2"
definition CORRECT_NOT_SURE :: int where "CORRECT_NOT_SURE = 1"
definition WRONG_DELTA :: int where "WRONG_DELTA = - 2"

text \<open>
  \<^verbatim>\<open>updateSpacedRepData\<close> spreads the stored record (or the default one) and then
  the three fields passed, so \<open>lastSeenPosition\<close> is carried over as it was.
\<close>

definition newLevel :: "int \<Rightarrow> bool \<Rightarrow> bool \<Rightarrow> int" where
  "newLevel lvl isCorrect unsure =
     (let l = (if isCorrect
               then (if unsure then lvl + CORRECT_NOT_SURE else lvl + CORRECT_SURE)
               else lvl + WRONG_DELTA)
      in max 0 (min MAX_LEVEL l))"

definition updateSpacedRepLevel :: "int \<Rightarrow> bool \<Rightarrow> bool \<Rightarrow> int \<Rightarrow> AppState \<Rightarrow> AppState" where
  "updateSpacedRepLevel qid isCorrect unsure now s =
     (let d = getSpacedRepData s qid in
      s\<lparr>spacedRepetition := (spacedRepetition s)(qid \<mapsto>
          d\<lparr>level := newLevel (level d) isCorrect unsure,
            lastSeen := now,
            seenCount := seenCount d + 1\<rparr>)\<rparr>)"

text \<open>The rule of the specification: a delta per event and a clamp to \<open>[0, 5]\<close>.\<close>

definition clamp :: "int \<Rightarrow> int \<Rightarrow> int \<Rightarrow> int" where
  "clamp x lo hi = (if x < lo then lo else if hi < x then hi else x)"

definition spec_delta :: "bool \<Rightarrow> bool \<Rightarrow> int" where
  "spec_delta isCorrect unsure = (if \<not> isCorrect then - 2 else if unsure then 1 else 2)"

definition markQuestionSeen :: "int \<Rightarrow> int \<Rightarrow> AppState \<Rightarrow> AppState" where
  "markQuestionSeen qid position s =
     (let d = getSpacedRepData s qid in
      s\<lparr>spacedRepetition := (spacedRepetition s)(qid \<mapsto> d\<lparr>lastSeenPosition := Some position\<rparr>)\<rparr>)"

subsection \<open>Priority and the session queue\<close>

text \<open>The table \<^verbatim>\<open>SPACED_REP_CONFIG.INTERVALS\<close>, and the lookup with its default.\<close>

definition INTERVALS :: "int \<Rightarrow> int option" where
  "INTERVALS l =
     (if l = 0 then Some 2 else if l = 1 then Some 4 else if l = 2 then Some 8
      else if l = 3 then Some 15 else if l = 4 then Some 25 else if l = 5 then Some 50
      else None)"

definition intervalOf :: "int \<Rightarrow> int" where
  "intervalOf l = (case INTERVALS l of None \<Rightarrow> 50 | Some n \<Rightarrow> if n = 0 then 50 else n)"

text \<open>
  \<open>r\<close> is the value \<^verbatim>\<open>Math.random()\<close> returns; it is read only in the branch of a
  question never seen, where the product and the sum of \<^verbatim>\<open>-1000 + Math.random() * 100\<close>
  are each rounded to a double. The score of a seen question is computed on integers.
\<close>

definition calculatePriority :: "AppState \<Rightarrow> int \<Rightarrow> int \<Rightarrow> real \<Rightarrow> real" where
  "calculatePriority s qid currentPosition r =
     (let d = getSpacedRepData s qid;
          interval = intervalOf (level d)
      in if seenCount d = 0 then binary64 (- 1000 + binary64 (r * 100))
         else
           let questionsSinceSeen =
                 currentPosition - (case lastSeenPosition d of None \<Rightarrow> 0 | Some p \<Rightarrow> p);
               overdueScore = questionsSinceSeen - interval;
               levelPenalty = level d * 10
           in real_of_int (overdueScore - levelPenalty))"

record Scored =
  s_qid :: int
  s_priority :: real
  s_data :: SpacedRepData

text \<open>
  The \<^verbatim>\<open>map\<close> that scores every question. \<open>k\<close> counts the random numbers drawn so
  far; a question never seen draws one.
\<close>

fun scoreAll :: "(nat \<Rightarrow> real) \<Rightarrow> nat \<Rightarrow> AppState \<Rightarrow> int list \<Rightarrow> Scored list \<times> nat" where
  "scoreAll rnd k s [] = ([], k)"
| "scoreAll rnd k s (q # qs) =
     (let d = getSpacedRepData s q;
          p = calculatePriority s q 0 (rnd k);
          rest = scoreAll rnd (if seenCount d = 0 then Suc k else k) s qs
      in (\<lparr>s_qid = q, s_priority = p, s_data = d\<rparr> # fst rest, snd rest))"

text \<open>
  Fisher-Yates: for \<open>i\<close> from the last index down to 1, swap position \<open>i\<close> with
  position \<^verbatim>\<open>Math.floor(Math.random() * (i + 1))\<close>.
\<close>

fun shuffle_loop :: "(nat \<Rightarrow> real) \<Rightarrow> nat \<Rightarrow> nat \<Rightarrow> 'a list \<Rightarrow> 'a list \<times> nat" where
  "shuffle_loop rnd k 0 xs = (xs, k)"
| "shuffle_loop rnd k (Suc i) xs =
     (let j = nat \<lfloor>binary64 (rnd k * real (Suc i + 1))\<rfloor>
      in shuffle_loop rnd (Suc k) i (xs[Suc i := xs ! j, j := xs ! Suc i]))"

definition shuffle :: "(nat \<Rightarrow> real) \<Rightarrow> nat \<Rightarrow> 'a list \<Rightarrow> 'a list \<times> nat" where
  "shuffle rnd k xs = shuffle_loop rnd k (length xs - 1) xs"

definition isUrgent :: "Scored \<Rightarrow> bool" where
  "isUrgent x = (seenCount (s_data x) = 0 \<or> level (s_data x) \<le> 1)"

definition isModerate :: "Scored \<Rightarrow> bool" where
  "isModerate x = (\<not> isUrgent x \<and> level (s_data x) \<le> 3)"

definition isReview :: "Scored \<Rightarrow> bool" where
  "isReview x = (\<not> isUrgent x \<and> \<not> level (s_data x) \<le> 3)"

definition shuffleWithPriority :: "(nat \<Rightarrow> real) \<Rightarrow> nat \<Rightarrow> Scored list \<Rightarrow> int list \<times> nat" where
  "shuffleWithPriority rnd k scoredQuestions =
     (let urgent = map s_qid (filter isUrgent scoredQuestions);
          moderate = map s_qid (filter isModerate scoredQuestions);
          review = map s_qid (filter isReview scoredQuestions);
          u = shuffle rnd k urgent;
          m = shuffle rnd (snd u) moderate;
          r = shuffle rnd (snd m) review
      in (fst u @ fst m @ fst r, snd r))"

text \<open>
  The comparator \<^verbatim>\<open>a.priority - b.priority\<close> sorts by ascending priority (the
  difference of two doubles has the sign of their exact difference), and
  \<^verbatim>\<open>Array.prototype.sort\<close> is stable: \<open>sort_key\<close>.
\<close>

definition selectForSession :: "nat \<Rightarrow> (nat \<Rightarrow> real) \<Rightarrow> AppState \<Rightarrow> Scored list" where
  "selectForSession sessionSize rnd s =
     (let allQids = allQuestionIds s;
          scored = fst (scoreAll rnd 0 s allQids);
          sorted = sort_key s_priority scored
      in take (min sessionSize (length allQids)) sorted)"

definition generateSmartQueue :: "nat \<Rightarrow> (nat \<Rightarrow> real) \<Rightarrow> AppState \<Rightarrow> int list" where
  "generateSmartQueue sessionSize rnd s =
     (if length (allQuestionIds s) = 0 then []
      else fst (shuffleWithPriority rnd (snd (scoreAll rnd 0 s (allQuestionIds s)))
                  (selectForSession sessionSize rnd s)))"

subsection \<open>Statistics of the smart mode\<close>

record SmartStats =
  totalCount :: nat
  mastered :: nat
  learning :: nat
  struggling :: nat
  notStarted :: nat
  masteredPct :: int

definition smart_step :: "(int \<rightharpoonup> SpacedRepData) \<Rightarrow> SmartStats \<Rightarrow> int \<Rightarrow> SmartStats" where
  "smart_step srData acc qid =
     (case srData qid of
        None \<Rightarrow> acc\<lparr>notStarted := notStarted acc + 1\<rparr>
      | Some d \<Rightarrow>
          if seenCount d = 0 then acc\<lparr>notStarted := notStarted acc + 1\<rparr>
          else if level d \<ge> 4 then acc\<lparr>mastered := mastered acc + 1\<rparr>
          else if level d \<ge> 1 then acc\<lparr>learning := learning acc + 1\<rparr>
          else acc\<lparr>struggling := struggling acc + 1\<rparr>)"

definition getSmartStats :: "AppState \<Rightarrow> SmartStats" where
  "getSmartStats s =
     (let allQids = allQuestionIds s;
          counted = foldl (smart_step (spacedRepetition s))
                      \<lparr>totalCount = length allQids, mastered = 0, learning = 0,
                        struggling = 0, notStarted = 0, masteredPct = 0\<rparr> allQids
      in counted\<lparr>masteredPct :=
           (if length allQids \<noteq> 0
            then percentOf (int (mastered counted)) (int (length allQids)) else 0)\<rparr>)"

section \<open>End of a session (main.js)\<close>

text \<open>The body of the loop of \<^verbatim>\<open>finishExam\<close> over the stack.\<close>

definition srPassStep :: "int \<Rightarrow> AppState \<Rightarrow> int \<Rightarrow> AppState" where
  "srPassStep now st qid =
     (case getQuestionState st qid of
        None \<Rightarrow> st
      | Some qState \<Rightarrow>
          if status qState \<noteq> Unanswered
          then updateSpacedRepLevel qid (status qState = Correct) (notSure qState) now st
          else st)"

definition examQuestionOf :: "AppState \<Rightarrow> int \<Rightarrow> ExamQuestion" where
  "examQuestionOf s qid =
     (let qs = getQuestionState s qid in
      \<lparr> eq_qid = qid,
        eq_answer = or_str (case qs of None \<Rightarrow> None | Some e \<Rightarrow> selectedAnswer e) None,
        eq_correct = (case qs of None \<Rightarrow> False | Some e \<Rightarrow> status e = Correct) \<rparr>)"

definition finishExam :: "int \<Rightarrow> AppState \<Rightarrow> AppState" where
  "finishExam now s =
     (let s1 = (if currentMode s = Some SMART \<or> currentMode s = Some LEARNING
                then foldl (srPassStep now) s (stack s) else s);
          s2 = (if currentRoundType s = BASE
                then
                  let examStats = computeStats (questionState s) (stack s);
                      n = int (length (stack s));
                      pct = (if n \<noteq> 0 then percentOf (correctCount examStats) n else 0)
                  in addExamHistory
                       \<lparr> x_date = now, x_mode = currentMode s,
                         x_examIndex = selectedExamIndex s,
                         x_duration = getExamElapsed now s,
                         x_results = \<lparr> r_total = n, r_correct = correctCount examStats,
                                       r_pct = pct,
                                       r_passed = (if n \<noteq> 0 then pct \<ge> 72 else False) \<rparr>,
                         x_questions = map (examQuestionOf s) (stack s) \<rparr> now s1
                else s1)
      in quiz_finishExam (currentRoundType s) (questionState s) (stack s) (currentMode s)
           (selectedExamIndex s) now s2)"

section \<open>Example values\<close>

definition exampleResult :: ExamResult where
  "exampleResult =
     \<lparr> x_date = 0, x_mode = Some EXAM, x_examIndex = Some 0, x_duration = 60,
       x_results = \<lparr>r_total = 1, r_correct = 1, r_pct = 100, r_passed = True\<rparr>,
       x_questions = [\<lparr>eq_qid = 1, eq_answer = Some ''A'', eq_correct = True\<rparr>] \<rparr>"

text \<open>
  The review sets as the specification words them: the ids of the base stack whose
  stored status is wrong, and the answered ids flagged not sure or don't know.
\<close>

definition isWrongIn :: "(int \<rightharpoonup> QuestionState) \<Rightarrow> int \<Rightarrow> bool" where
  "isWrongIn qs q = (case qs q of None \<Rightarrow> False | Some st \<Rightarrow> status st = Wrong)"

definition isNotSureIn :: "(int \<rightharpoonup> QuestionState) \<Rightarrow> int \<Rightarrow> bool" where
  "isNotSureIn qs q =
     (case qs q of None \<Rightarrow> False | Some st \<Rightarrow> status st \<noteq> Unanswered \<and> notSure st)"

definition isDontKnowIn :: "(int \<rightharpoonup> QuestionState) \<Rightarrow> int \<Rightarrow> bool" where
  "isDontKnowIn qs q =
     (case qs q of None \<Rightarrow> False | Some st \<Rightarrow> status st \<noteq> Unanswered \<and> dontKnow st)"

text \<open>
  The base snapshot of the specification's example: question 5 wrong and not sure,
  question 7 wrong only, question 9 correct but don't know.
\<close>

definition exampleBaseState :: "int \<rightharpoonup> QuestionState" where
  "exampleBaseState =
     [5 \<mapsto> \<lparr>selectedAnswer = Some ''B'', status = Wrong, dontKnow = False,
              notSure = True, time = 12\<rparr>,
      7 \<mapsto> \<lparr>selectedAnswer = Some ''C'', status = Wrong, dontKnow = False,
              notSure = False, time = 8\<rparr>,
      9 \<mapsto> \<lparr>selectedAnswer = Some ''A'', status = Correct, dontKnow = True,
              notSure = False, time = 20\<rparr>]"

text \<open>
  A round in progress in learning mode: questions 3 and 4, question 3 current, with a
  stored draft for it (letter B selected, flagged don't know).
\<close>

definition exampleQuestion :: QuestionData where
  "exampleQuestion =
     \<lparr> number = 3, question = ''Which option?'',
       answers = [(''A'', ''first''), (''B'', ''second''), (''C'', ''third'')],
       correct = [''A'', ''C''] \<rparr>"

definition exampleDraft :: QuestionState where
  "exampleDraft =
     \<lparr>selectedAnswer = Some ''B'', status = Unanswered, dontKnow = True,
      notSure = False, time = 0\<rparr>"

definition exampleRound :: AppState where
  "exampleRound =
     initialState\<lparr> questions := [3 \<mapsto> exampleQuestion],
                    allQuestionIds := [3], stack := [3, 4], currentIndex := 0,
                    questionState := [3 \<mapsto> exampleDraft],
                    questionStartTime := Some 1000,
                    currentMode := Some LEARNING \<rparr>"

text \<open>
  A remote document with timestamp 5000 that carries a history, wrong counts and an
  empty list of exams, and a local state with exams, a wrong count and last-applied
  timestamp 100.
\<close>

definition exampleEntry :: HistoryEntry where
  "exampleEntry =
     \<lparr>h_date = 4000, h_mode = Some EXAM, h_total = 3, h_correct = 2, h_pct = 67,
      h_avgTime = 30\<rparr>"

definition exampleCloud :: CloudData where
  "exampleCloud =
     \<lparr> c_timestamp = Some 5000, c_completedLearning = Some [2, 1, 2],
       c_completedExam = None, c_history = Some [exampleEntry],
       c_wrongCounts = Some [7 \<mapsto> 2], c_exams = Some [],
       c_questionMeta = None, c_spacedRepetition = None, c_examHistory = None \<rparr>"

definition exampleLocal :: AppState where
  "exampleLocal =
     initialState\<lparr> exams := [[1, 2], [3, 4]], wrongCounts := [3 \<mapsto> 1],
                    completedExam := [0], lastCloudTimestamp := 100 \<rparr>"

text \<open>
  A smart-mode session over questions 7 and 8 with no earlier records: question 7 (at
  position 0) answered correctly, question 8 (at position 1) answered wrongly.
\<close>

definition exampleSession :: AppState where
  "exampleSession =
     initialState\<lparr> allQuestionIds := [7, 8], stack := [7, 8], currentIndex := 1,
                    questionState :=
                      [7 \<mapsto> \<lparr>selectedAnswer = Some ''A'', status = Correct,
                               dontKnow = False, notSure = False, time = 5\<rparr>,
                       8 \<mapsto> \<lparr>selectedAnswer = Some ''B'', status = Wrong,
                               dontKnow = False, notSure = False, time = 9\<rparr>],
                    examStartTime := Some 1000, currentMode := Some SMART \<rparr>"

text \<open>
  The four categories of the smart mode as the specification words them, and the
  records the data model allows (a level from 0 to 5, a count that is not negative).
\<close>

definition isMastered :: "(int \<rightharpoonup> SpacedRepData) \<Rightarrow> int \<Rightarrow> bool" where
  "isMastered sr q = (case sr q of None \<Rightarrow> False | Some d \<Rightarrow> level d \<ge> 4 \<and> seenCount d > 0)"

definition isLearning :: "(int \<rightharpoonup> SpacedRepData) \<Rightarrow> int \<Rightarrow> bool" where
  "isLearning sr q =
     (case sr q of None \<Rightarrow> False | Some d \<Rightarrow> 1 \<le> level d \<and> level d \<le> 3 \<and> seenCount d > 0)"

definition isStruggling :: "(int \<rightharpoonup> SpacedRepData) \<Rightarrow> int \<Rightarrow> bool" where
  "isStruggling sr q = (case sr q of None \<Rightarrow> False | Some d \<Rightarrow> level d = 0 \<and> seenCount d > 0)"

definition isNotStarted :: "(int \<rightharpoonup> SpacedRepData) \<Rightarrow> int \<Rightarrow> bool" where
  "isNotStarted sr q = (case sr q of None \<Rightarrow> True | Some d \<Rightarrow> seenCount d = 0)"

definition validRecord :: "SpacedRepData \<Rightarrow> bool" where
  "validRecord d = (0 \<le> level d \<and> level d \<le> 5 \<and> 0 \<le> seenCount d)"

definition validRecords :: "(int \<rightharpoonup> SpacedRepData) \<Rightarrow> int list \<Rightarrow> bool" where
  "validRecords sr ids = list_all (\<lambda>q. case sr q of None \<Rightarrow> True | Some d \<Rightarrow> validRecord d) ids"

text \<open>The number of categories that count a question.\<close>

definition categoriesOf :: "(int \<rightharpoonup> SpacedRepData) \<Rightarrow> int \<Rightarrow> nat" where
  "categoriesOf sr q =
     (if isMastered sr q then 1 else 0) + (if isLearning sr q then 1 else 0)
     + (if isStruggling sr q then 1 else 0) + (if isNotStarted sr q then 1 else 0)"

text \<open>
  Five questions: 1 mastered, 2 learning, 3 struggling, 4 with a record never used, and
  5 with no record.
\<close>

definition exampleProgress :: AppState where
  "exampleProgress =
     initialState\<lparr> allQuestionIds := [1, 2, 3, 4, 5],
       spacedRepetition :=
         [1 \<mapsto> \<lparr>level = 5, lastSeen = 900, seenCount = 4, lastSeenPosition = None\<rparr>,
          2 \<mapsto> \<lparr>level = 2, lastSeen = 900, seenCount = 2, lastSeenPosition = None\<rparr>,
          3 \<mapsto> \<lparr>level = 0, lastSeen = 900, seenCount = 1, lastSeenPosition = None\<rparr>,
          4 \<mapsto> \<lparr>level = 0, lastSeen = 0, seenCount = 0, lastSeenPosition = None\<rparr>] \<rparr>"

text \<open>
  The words of the priority claim: a question is never seen when its record (or the
  default record) has \<open>seenCount\<close> 0; a seen question is in range for a position when
  its level is a level of the data model and the position is at most 799 questions
  behind its \<open>lastSeenPosition\<close>; the random numbers are doubles in \<open>[0, 1)\<close>; and
  a JavaScript array has fewer than \<open>2^32\<close> elements.
\<close>

definition neverSeen :: "AppState \<Rightarrow> int \<Rightarrow> bool" where
  "neverSeen s q = (seenCount (getSpacedRepData s q) = 0)"

definition seenInRange :: "AppState \<Rightarrow> int \<Rightarrow> int \<Rightarrow> bool" where
  "seenInRange s q currentPosition =
     (let d = getSpacedRepData s q in
      seenCount d \<noteq> 0 \<and> 0 \<le> level d \<and> level d \<le> 5
      \<and> - 799 \<le> currentPosition - (case lastSeenPosition d of None \<Rightarrow> 0 | Some p \<Rightarrow> p))"

definition unitDraws :: "(nat \<Rightarrow> real) \<Rightarrow> bool" where
  "unitDraws rnd = (\<forall>k. isDouble (rnd k) \<and> 0 \<le> rnd k \<and> rnd k < 1)"

definition jsArray :: "'a list \<Rightarrow> bool" where
  "jsArray xs = (length xs < 2 ^ 32)"

definition recordsInRange :: "AppState \<Rightarrow> bool" where
  "recordsInRange s = list_all (\<lambda>q. neverSeen s q \<or> seenInRange s q 0) (allQuestionIds s)"

text \<open>
  Two questions: 1 never seen, 2 seen once and answered wrongly (level 0).
\<close>

definition exampleMixed :: AppState where
  "exampleMixed =
     initialState\<lparr> allQuestionIds := [1, 2],
       spacedRepetition :=
         [2 \<mapsto> \<lparr>level = 0, lastSeen = 900, seenCount = 1, lastSeenPosition = None\<rparr>] \<rparr>"

text \<open>
  What the scoring pass stores for a question: its record, and its priority at
  position 0 with one of the random numbers.
\<close>

definition wellScored :: "(nat \<Rightarrow> real) \<Rightarrow> AppState \<Rightarrow> Scored \<Rightarrow> bool" where
  "wellScored rnd s x =
     (s_data x = getSpacedRepData s (s_qid x)
      \<and> (\<exists>k. s_priority x = calculatePriority s (s_qid x) 0 (rnd k)))"

section \<open>The level update\<close>

text \<open>
  C2. For a stored spaced-repetition record and one answer event, the level written by
  \<open>updateSpacedRepLevel\<close> is \<open>clamp (level + delta) 0 5\<close>, where delta is +2 for a
  correct and confident answer, +1 for a correct answer marked not sure and -2 for an
  incorrect answer whatever the flag; the new level lies in \<open>[0, 5]\<close>, and a correct
  and confident answer at level 5 leaves the level at 5.
\<close>

theorem level_update_clamped:
  "level (getSpacedRepData (updateSpacedRepLevel qid isCorrect unsure now s) qid)
     = clamp (level (getSpacedRepData s qid) + spec_delta isCorrect unsure) 0 5
   \<and> 0 \<le> level (getSpacedRepData (updateSpacedRepLevel qid isCorrect unsure now s) qid)
   \<and> level (getSpacedRepData (updateSpacedRepLevel qid isCorrect unsure now s) qid) \<le> 5
   \<and> newLevel 5 True False = 5
   \<and> spec_delta True False = 2 \<and> spec_delta True True = 1
   \<and> spec_delta False unsure = - 2"
  by (simp add: updateSpacedRepLevel_def getSpacedRepData_def newLevel_def clamp_def
      spec_delta_def MAX_LEVEL_def CORRECT_SURE_def CORRECT_NOT_SURE_def WRONG_DELTA_def
      Let_def)

section \<open>Membership of a JavaScript Set built from an array\<close>

lemma set_new_Set_aux: "set (foldl Set_add acc xs) = set acc \<union> set xs"
  by (induction xs arbitrary: acc) (auto simp: Set_add_def)

lemma set_new_Set: "set (new_Set xs) = set xs"
  by (simp add: new_Set_def set_new_Set_aux)

lemma distinct_new_Set_aux: "distinct acc \<Longrightarrow> distinct (foldl Set_add acc xs)"
  by (induction xs arbitrary: acc) (auto simp: Set_add_def)

lemma distinct_new_Set: "distinct (new_Set xs)"
  by (simp add: new_Set_def distinct_new_Set_aux)

section \<open>The bound on the exam history\<close>

text \<open>
  C9. After \<open>addExamHistory\<close> the exam-history list holds at most 50 records, whatever
  it held before. Below 50 records the new one is appended; at exactly 50 the result
  has exactly 50 records: the oldest is dropped, the others keep their order and the
  new record comes last.
\<close>

theorem exam_history_bounded:
  "length (examHistory (addExamHistory r now s)) \<le> 50
   \<and> (length (examHistory s) < 50 \<longrightarrow>
        examHistory (addExamHistory r now s) = examHistory s @ [withId now r])
   \<and> (length (examHistory s) = 50 \<longrightarrow>
        length (examHistory (addExamHistory r now s)) = 50
        \<and> examHistory (addExamHistory r now s) = tl (examHistory s) @ [withId now r])"
  by (cases "examHistory s") (auto simp: addExamHistory_def slice_last_def Let_def)

text \<open>
  The bound at work: a 51st record added to 50 records numbered 0 to 49 leaves the
  records 1 to 49 followed by the new one, and a first record is simply stored.
\<close>

theorem exam_history_bounded_witness:
  "length (examHistory (addExamHistory exampleResult 7
      (initialState\<lparr>examHistory := map (\<lambda>i. withId (int i) exampleResult) [0..<50]\<rparr>))) = 50
   \<and> examHistory (addExamHistory exampleResult 7
      (initialState\<lparr>examHistory := map (\<lambda>i. withId (int i) exampleResult) [0..<50]\<rparr>))
     = map (\<lambda>i. withId (int i) exampleResult) [1..<50] @ [withId 7 exampleResult]
   \<and> examHistory (addExamHistory exampleResult 7 initialState) = [withId 7 exampleResult]"
  using exam_history_bounded [of exampleResult 7
      "initialState\<lparr>examHistory := map (\<lambda>i. withId (int i) exampleResult) [0..<50]\<rparr>"]
    exam_history_bounded [of exampleResult 7 initialState]
  by (simp add: initialState_def map_tl [symmetric] del: upt_Suc)

section \<open>Starting a round\<close>

text \<open>
  C6. \<open>startRound\<close> returns false and leaves the state as it is when the question ids
  are absent or empty. For a non-empty sequence it returns true, sets the round type,
  stores the sequence as the stack, resets the current index to 0, clears the
  per-question states and the answer orders and restarts the question clock; the
  current question id is then the first id of the sequence.
\<close>

theorem startRound_resets_round:
  "startRound ty None now s = (False, s)
   \<and> startRound ty (Some []) now s = (False, s)
   \<and> (ids \<noteq> [] \<longrightarrow>
        startRound ty (Some ids) now s =
          (True, s\<lparr>stack := ids, currentIndex := 0, questionState := Map.empty,
                  answerOrder := Map.empty, questionStartTime := Some now,
                  currentRoundType := ty\<rparr>)
        \<and> getCurrentQuestionId (snd (startRound ty (Some ids) now s)) = Some (hd ids))"
  by (cases ids)
     (simp_all add: startRound_def resetQuestionTimer_def initStack_def setRoundType_def
        getCurrentQuestionId_def)

theorem startRound_resets_round_witness:
  "startRound REVIEW_WRONG (Some [5, 7]) 1000 initialState =
     (True, initialState\<lparr>stack := [5, 7], currentIndex := 0, questionState := Map.empty,
                  answerOrder := Map.empty, questionStartTime := Some 1000,
                  currentRoundType := REVIEW_WRONG\<rparr>)
   \<and> getCurrentQuestionId (snd (startRound REVIEW_WRONG (Some [5, 7]) 1000 initialState))
       = Some 5"
  using startRound_resets_round [of REVIEW_WRONG 1000 initialState "[5, 7]"]
  by (simp add: getCurrentQuestionId_def)

section \<open>Review sets\<close>

lemma computeStats_wrong_aux:
  "wrong (foldl (stats_step qs) acc ids) = wrong acc @ filter (isWrongIn qs) ids"
proof (induction ids arbitrary: acc)
  case Nil
  show ?case by simp
next
  case (Cons q ids)
  have "wrong (stats_step qs acc q) = wrong acc @ filter (isWrongIn qs) [q]"
    by (cases "qs q"; cases "status (the (qs q))")
       (simp_all add: stats_step_def isWrongIn_def Let_def)
  with Cons.IH [of "stats_step qs acc q"] show ?case by simp
qed

lemma computeStats_ns_aux:
  "ns (foldl (stats_step qs) acc ids) = ns acc @ filter (isNotSureIn qs) ids"
proof (induction ids arbitrary: acc)
  case Nil
  show ?case by simp
next
  case (Cons q ids)
  have "ns (stats_step qs acc q) = ns acc @ filter (isNotSureIn qs) [q]"
    by (cases "qs q"; cases "status (the (qs q))")
       (simp_all add: stats_step_def isNotSureIn_def Let_def)
  with Cons.IH [of "stats_step qs acc q"] show ?case by simp
qed

lemma computeStats_dk_aux:
  "dk (foldl (stats_step qs) acc ids) = dk acc @ filter (isDontKnowIn qs) ids"
proof (induction ids arbitrary: acc)
  case Nil
  show ?case by simp
next
  case (Cons q ids)
  have "dk (stats_step qs acc q) = dk acc @ filter (isDontKnowIn qs) [q]"
    by (cases "qs q"; cases "status (the (qs q))")
       (simp_all add: stats_step_def isDontKnowIn_def Let_def)
  with Cons.IH [of "stats_step qs acc q"] show ?case by simp
qed

lemma computeStats_lists:
  "wrong (computeStats qs ids) = filter (isWrongIn qs) ids"
  "ns (computeStats qs ids) = filter (isNotSureIn qs) ids"
  "dk (computeStats qs ids) = filter (isDontKnowIn qs) ids"
  by (simp_all add: computeStats_def computeStats_wrong_aux computeStats_ns_aux
      computeStats_dk_aux emptyStats_def)

text \<open>
  C8. \<open>getReviewQuestions\<close> returns the empty list when the base state or the base
  stack is absent. Otherwise the wrong review is the stack's ids whose status is wrong,
  the not-sure review the answered ids flagged not sure, the don't-know review the
  answered ids flagged don't know, and the review of all is the union of the three with
  no id repeated. On the example (5 wrong and not sure, 7 wrong only, 9 correct but
  don't know) the review of all is the set {5, 7, 9} and the wrong review is 5, 7.
\<close>

theorem review_sets_from_base_snapshot:
  "getReviewQuestions None bStack ty = []
   \<and> getReviewQuestions bState None ty = []
   \<and> getReviewQuestions (Some qs) (Some stk) REVIEW_WRONG = filter (isWrongIn qs) stk
   \<and> getReviewQuestions (Some qs) (Some stk) REVIEW_NOT_SURE = filter (isNotSureIn qs) stk
   \<and> getReviewQuestions (Some qs) (Some stk) REVIEW_DONT_KNOW = filter (isDontKnowIn qs) stk
   \<and> set (getReviewQuestions (Some qs) (Some stk) REVIEW_ALL)
       = {q \<in> set stk. isWrongIn qs q} \<union> {q \<in> set stk. isNotSureIn qs q}
         \<union> {q \<in> set stk. isDontKnowIn qs q}
   \<and> distinct (getReviewQuestions (Some qs) (Some stk) REVIEW_ALL)
   \<and> set (getReviewQuestions (Some exampleBaseState) (Some [5, 7, 9]) REVIEW_ALL) = {5, 7, 9}
   \<and> getReviewQuestions (Some exampleBaseState) (Some [5, 7, 9]) REVIEW_WRONG = [5, 7]"
proof -
  have a1: "getReviewQuestions None bStack ty = []"
    by (simp add: getReviewQuestions_def)
  have a2: "getReviewQuestions bState None ty = []"
    by (cases bState) (simp_all add: getReviewQuestions_def)
  have w: "getReviewQuestions (Some qs') (Some stk') REVIEW_WRONG
      = filter (isWrongIn qs') stk'" for qs' stk'
    by (simp add: getReviewQuestions_def computeStats_lists)
  have n: "getReviewQuestions (Some qs) (Some stk) REVIEW_NOT_SURE
      = filter (isNotSureIn qs) stk"
    by (simp add: getReviewQuestions_def computeStats_lists)
  have d: "getReviewQuestions (Some qs) (Some stk) REVIEW_DONT_KNOW
      = filter (isDontKnowIn qs) stk"
    by (simp add: getReviewQuestions_def computeStats_lists)
  have all_eq: "getReviewQuestions (Some qs') (Some stk') REVIEW_ALL
      = new_Set (filter (isWrongIn qs') stk' @ filter (isDontKnowIn qs') stk'
                 @ filter (isNotSureIn qs') stk')" for qs' stk'
    by (simp add: getReviewQuestions_def computeStats_lists)
  have u: "set (getReviewQuestions (Some qs) (Some stk) REVIEW_ALL)
      = {q \<in> set stk. isWrongIn qs q} \<union> {q \<in> set stk. isNotSureIn qs q}
        \<union> {q \<in> set stk. isDontKnowIn qs q}"
    unfolding all_eq set_new_Set by auto
  have dist: "distinct (getReviewQuestions (Some qs) (Some stk) REVIEW_ALL)"
    unfolding all_eq by (rule distinct_new_Set)
  have ex: "filter (isWrongIn exampleBaseState) [5, 7, 9] = [5, 7]"
    "filter (isDontKnowIn exampleBaseState) [5, 7, 9] = [9]"
    "filter (isNotSureIn exampleBaseState) [5, 7, 9] = [5]"
    by (simp_all add: exampleBaseState_def isWrongIn_def isDontKnowIn_def isNotSureIn_def)
  have e1: "set (getReviewQuestions (Some exampleBaseState) (Some [5, 7, 9]) REVIEW_ALL)
      = {5, 7, 9}"
    unfolding all_eq set_new_Set ex by auto
  have e2: "getReviewQuestions (Some exampleBaseState) (Some [5, 7, 9]) REVIEW_WRONG = [5, 7]"
    unfolding w ex by (rule refl)
  from a1 a2 w n d u dist e1 e2 show ?thesis by blast
qed

section \<open>Draft updates\<close>

lemma updateDraftState_cases:
  "updateDraftState sel dkF nsF s = s
   \<or> (\<exists>qid. getCurrentQuestionId s = Some qid \<and> qid \<noteq> 0
        \<and> \<not> (isLearningMode s \<and> answered (questionState s qid))
        \<and> updateDraftState sel dkF nsF s =
            s\<lparr>questionState := (questionState s)(qid \<mapsto>
                \<lparr> selectedAnswer =
                    or_str (or_str sel (case questionState s qid of None \<Rightarrow> None
                                        | Some e \<Rightarrow> selectedAnswer e)) None,
                  status = (case questionState s qid of None \<Rightarrow> Unanswered
                            | Some e \<Rightarrow> status e),
                  dontKnow = dkF, notSure = nsF,
                  time = (case questionState s qid of None \<Rightarrow> 0 | Some e \<Rightarrow> time e) \<rparr>)\<rparr>)"
  by (cases "getCurrentQuestionId s")
     (auto simp: updateDraftState_def updateQuestionState_def getQuestionState_def Let_def)

lemma updateDraftState_status:
  assumes "questionState s q = Some st"
  shows "\<exists>st'. questionState (updateDraftState sel dkF nsF s) q = Some st'
               \<and> status st' = status st"
  using updateDraftState_cases [of sel dkF nsF s] assms by auto

lemma updateDraftState_null:
  assumes cur: "getCurrentQuestionId s = Some qid"
    and st: "questionState s qid = Some st"
    and has: "truthy_str (selectedAnswer st)"
    and null: "\<not> truthy_str sel"
  shows "updateDraftState sel dkF nsF s =
           (if qid \<noteq> 0 \<and> \<not> (isLearningMode s \<and> status st \<noteq> Unanswered)
            then s\<lparr>questionState := (questionState s)(qid \<mapsto> st\<lparr>dontKnow := dkF, notSure := nsF\<rparr>)\<rparr>
            else s)"
proof -
  have rec: "\<lparr>selectedAnswer = selectedAnswer st, status = status st, dontKnow = dkF,
              notSure = nsF, time = time st\<rparr> = st\<lparr>dontKnow := dkF, notSure := nsF\<rparr>"
    by (cases st) simp
  from cur st has null show ?thesis
    by (simp add: updateDraftState_def updateQuestionState_def getQuestionState_def Let_def
        or_str_def answered_def rec)
qed

text \<open>
  C10. \<open>updateDraftState\<close> never changes a stored status. Called with no selected
  answer (null or the empty string) on a current question that has a stored selection,
  it keeps that selection: the call either leaves the whole state as it is (question
  id 0, or learning mode with the question already answered) or overwrites exactly the
  two flags \<open>dontKnow\<close> and \<open>notSure\<close> of the current question with the values passed.
\<close>

theorem draft_update_keeps_selection_and_status:
  "(\<forall>q st. questionState s q = Some st \<longrightarrow>
      (\<exists>st'. questionState (updateDraftState sel dkF nsF s) q = Some st'
             \<and> status st' = status st))
   \<and> (getCurrentQuestionId s = Some qid \<and> questionState s qid = Some cur
       \<and> truthy_str (selectedAnswer cur) \<and> \<not> truthy_str sel \<longrightarrow>
        (\<exists>st'. questionState (updateDraftState sel dkF nsF s) qid = Some st'
               \<and> selectedAnswer st' = selectedAnswer cur)
        \<and> updateDraftState sel dkF nsF s =
            (if qid \<noteq> 0 \<and> \<not> (isLearningMode s \<and> status cur \<noteq> Unanswered)
             then s\<lparr>questionState :=
                      (questionState s)(qid \<mapsto> cur\<lparr>dontKnow := dkF, notSure := nsF\<rparr>)\<rparr>
             else s))"
proof (intro conjI allI impI)
  fix q st
  assume "questionState s q = Some st"
  then show "\<exists>st'. questionState (updateDraftState sel dkF nsF s) q = Some st'
                   \<and> status st' = status st"
    by (rule updateDraftState_status)
next
  assume h: "getCurrentQuestionId s = Some qid \<and> questionState s qid = Some cur
             \<and> truthy_str (selectedAnswer cur) \<and> \<not> truthy_str sel"
  then have eq: "updateDraftState sel dkF nsF s =
      (if qid \<noteq> 0 \<and> \<not> (isLearningMode s \<and> status cur \<noteq> Unanswered)
       then s\<lparr>questionState :=
                (questionState s)(qid \<mapsto> cur\<lparr>dontKnow := dkF, notSure := nsF\<rparr>)\<rparr>
       else s)"
    by (intro updateDraftState_null) simp_all
  show "updateDraftState sel dkF nsF s =
      (if qid \<noteq> 0 \<and> \<not> (isLearningMode s \<and> status cur \<noteq> Unanswered)
       then s\<lparr>questionState :=
                (questionState s)(qid \<mapsto> cur\<lparr>dontKnow := dkF, notSure := nsF\<rparr>)\<rparr>
       else s)"
    by (rule eq)
  from h show "\<exists>st'. questionState (updateDraftState sel dkF nsF s) qid = Some st'
                     \<and> selectedAnswer st' = selectedAnswer cur"
    unfolding eq by simp
qed

text \<open>
  On the example round in exam mode, a change of the confidence boxes with no radio
  button read keeps letter B and the status and stores the two flags passed.
\<close>

theorem draft_update_keeps_selection_and_status_witness:
  "questionState (updateDraftState None False True (exampleRound\<lparr>currentMode := Some EXAM\<rparr>)) 3
     = Some \<lparr>selectedAnswer = Some ''B'', status = Unanswered, dontKnow = False,
             notSure = True, time = 0\<rparr>"
  using draft_update_keeps_selection_and_status
    [of "exampleRound\<lparr>currentMode := Some EXAM\<rparr>" None False True 3 exampleDraft]
  by (simp add: exampleRound_def exampleDraft_def initialState_def getCurrentQuestionId_def
      isLearningMode_def)

section \<open>Checking the current question\<close>

text \<open>
  C7. \<open>checkCurrentQuestion\<close> returns false and changes nothing when no answer is
  selected (null or the empty string). With an answer selected, on the current
  question (the one \<open>getCurrentQuestion\<close> returns), it returns true; the state stored
  for the question holds the selected letter, the status correct exactly when the
  letter is one of the question's correct letters (any one of several suffices) and
  wrong otherwise, the elapsed time of the question and the flags stored before; and
  the question's wrong count is incremented by one exactly when the answer is
  incorrect. Nothing else in the state changes.
\<close>

theorem check_current_question:
  "(\<not> truthy_str sel \<longrightarrow> checkCurrentQuestion sel now s = (False, s))
   \<and> (sel = Some a \<and> a \<noteq> [] \<and> getCurrentQuestionId s = Some qid
       \<and> getCurrentQuestion s = Some q \<longrightarrow>
        checkCurrentQuestion sel now s =
          (True,
           s\<lparr>questionState := (questionState s)(qid \<mapsto>
                \<lparr> selectedAnswer = Some a,
                  status = (if a \<in> set (correct q) then Correct else Wrong),
                  dontKnow = (case questionState s qid of None \<Rightarrow> False
                              | Some e \<Rightarrow> dontKnow e),
                  notSure = (case questionState s qid of None \<Rightarrow> False
                             | Some e \<Rightarrow> notSure e),
                  time = getQuestionElapsed now s \<rparr>),
              wrongCounts :=
                (if a \<in> set (correct q) then wrongCounts s
                 else (wrongCounts s)(qid \<mapsto>
                        (case wrongCounts s qid of None \<Rightarrow> 0 | Some c \<Rightarrow> c) + 1))\<rparr>))"
proof (intro conjI impI)
  assume "\<not> truthy_str sel"
  then show "checkCurrentQuestion sel now s = (False, s)"
    by (cases sel) (simp_all add: checkCurrentQuestion_def)
next
  assume h: "sel = Some a \<and> a \<noteq> [] \<and> getCurrentQuestionId s = Some qid
             \<and> getCurrentQuestion s = Some q"
  then have nz: "qid \<noteq> 0"
    by (auto simp: getCurrentQuestion_def split: if_splits)
  have getElapsed: "getQuestionElapsed now (s\<lparr>questionState := m\<rparr>) = getQuestionElapsed now s"
    for m by (simp add: getQuestionElapsed_def)
  from h nz show "checkCurrentQuestion sel now s =
          (True,
           s\<lparr>questionState := (questionState s)(qid \<mapsto>
                \<lparr> selectedAnswer = Some a,
                  status = (if a \<in> set (correct q) then Correct else Wrong),
                  dontKnow = (case questionState s qid of None \<Rightarrow> False
                              | Some e \<Rightarrow> dontKnow e),
                  notSure = (case questionState s qid of None \<Rightarrow> False
                             | Some e \<Rightarrow> notSure e),
                  time = getQuestionElapsed now s \<rparr>),
              wrongCounts :=
                (if a \<in> set (correct q) then wrongCounts s
                 else (wrongCounts s)(qid \<mapsto>
                        (case wrongCounts s qid of None \<Rightarrow> 0 | Some c \<Rightarrow> c) + 1))\<rparr>)"
    by (simp add: checkCurrentQuestion_def updateQuestionState_def incrementWrongCount_def
        getQuestionState_def Let_def)
qed

text \<open>
  On the example round (question 3, correct letters A and C, started at time 1000 ms):
  letter C checked at time 4600 ms is correct, takes 4 seconds and leaves the wrong
  counts alone; letter B is wrong and brings the wrong count of question 3 to 1; with
  no letter the call returns false and the round is as before.
\<close>

theorem check_current_question_witness:
  "fst (checkCurrentQuestion (Some ''C'') 4600 exampleRound) = True
   \<and> questionState (snd (checkCurrentQuestion (Some ''C'') 4600 exampleRound)) 3
       = Some \<lparr>selectedAnswer = Some ''C'', status = Correct, dontKnow = True,
               notSure = False, time = 4\<rparr>
   \<and> wrongCounts (snd (checkCurrentQuestion (Some ''C'') 4600 exampleRound)) 3 = None
   \<and> questionState (snd (checkCurrentQuestion (Some ''B'') 4600 exampleRound)) 3
       = Some \<lparr>selectedAnswer = Some ''B'', status = Wrong, dontKnow = True,
               notSure = False, time = 4\<rparr>
   \<and> wrongCounts (snd (checkCurrentQuestion (Some ''B'') 4600 exampleRound)) 3 = Some 1
   \<and> checkCurrentQuestion None 4600 exampleRound = (False, exampleRound)"
  using check_current_question [of "Some ''C''" 4600 exampleRound "''C''" 3 exampleQuestion]
    check_current_question [of "Some ''B''" 4600 exampleRound "''B''" 3 exampleQuestion]
    check_current_question [of None 4600 exampleRound]
  by (simp add: exampleRound_def exampleQuestion_def exampleDraft_def initialState_def
      getCurrentQuestionId_def getCurrentQuestion_def getQuestionElapsed_def round_div_def)

section \<open>Merging a remote update\<close>

text \<open>
  C1 as stated fails in three places. While a local write is in flight
  (\<open>isSaving\<close>) a newer remote document is ignored whole. A newer document whose
  \<open>exams\<close> property is present but empty does not replace the local exams. And a
  timestamp 0 counts as absent, so it is not applied even over a negative last-applied
  timestamp.
\<close>

theorem newer_update_not_applied:
  "onCloudDataChange (Some exampleCloud) (exampleLocal\<lparr>isSaving := True\<rparr>)
     = exampleLocal\<lparr>isSaving := True\<rparr>
   \<and> history (onCloudDataChange (Some exampleCloud) (exampleLocal\<lparr>isSaving := True\<rparr>)) = []
   \<and> c_history exampleCloud = Some [exampleEntry]
   \<and> c_exams exampleCloud = Some []
   \<and> exams (onCloudDataChange (Some exampleCloud) exampleLocal) = [[1, 2], [3, 4]]
   \<and> onCloudDataChange (Some (exampleCloud\<lparr>c_timestamp := Some 0\<rparr>))
        (exampleLocal\<lparr>lastCloudTimestamp := - 1\<rparr>)
      = exampleLocal\<lparr>lastCloudTimestamp := - 1\<rparr>"
  by (simp add: onCloudDataChange_def applyData_def exampleCloud_def exampleLocal_def
      initialState_def)

lemma applyData_fields:
  "lastCloudTimestamp (applyData (Some d) s) = (case c_timestamp d of None \<Rightarrow> 0 | Some ts \<Rightarrow> ts)"
  "completedLearning (applyData (Some d) s) =
     (case c_completedLearning d of None \<Rightarrow> completedLearning s | Some v \<Rightarrow> new_Set v)"
  "completedExam (applyData (Some d) s) =
     (case c_completedExam d of None \<Rightarrow> completedExam s | Some v \<Rightarrow> new_Set v)"
  "history (applyData (Some d) s) = (case c_history d of None \<Rightarrow> history s | Some v \<Rightarrow> v)"
  "wrongCounts (applyData (Some d) s) =
     (case c_wrongCounts d of None \<Rightarrow> wrongCounts s | Some v \<Rightarrow> v)"
  "exams (applyData (Some d) s) =
     (case c_exams d of None \<Rightarrow> exams s | Some v \<Rightarrow> if v = [] then exams s else v)"
  "questionMeta (applyData (Some d) s) =
     (case c_questionMeta d of None \<Rightarrow> questionMeta s | Some v \<Rightarrow> v)"
  "spacedRepetition (applyData (Some d) s) =
     (case c_spacedRepetition d of None \<Rightarrow> spacedRepetition s | Some v \<Rightarrow> v)"
  "examHistory (applyData (Some d) s) =
     (case c_examHistory d of None \<Rightarrow> examHistory s | Some v \<Rightarrow> v)"
  by (simp_all add: applyData_def Let_def split: option.splits)

text \<open>
  C1, amended. An inbound snapshot leaves the whole local state unchanged when a local
  write is in flight, when the snapshot is empty, or when its timestamp is absent, zero
  or not greater than the last-applied timestamp T. When no write is in flight and the
  timestamp is non-zero and strictly greater than T, the last-applied timestamp becomes
  the inbound one and every property present in the payload replaces the local field:
  completedLearning and completedExam as the sets of the inbound arrays, history,
  wrongCounts, questionMeta, spacedRepetition and examHistory as they come, and exams
  when the inbound list is not empty; a property that is absent (and an empty exams
  list) leaves the local field as it was.
\<close>

theorem cloud_merge_by_timestamp:
  "(isSaving s \<longrightarrow> onCloudDataChange v s = s)
   \<and> onCloudDataChange None s = s
   \<and> (c_timestamp d = None \<longrightarrow> onCloudDataChange (Some d) s = s)
   \<and> (c_timestamp d = Some ts \<and> (ts \<le> lastCloudTimestamp s \<or> ts = 0) \<longrightarrow>
        onCloudDataChange (Some d) s = s)
   \<and> (\<not> isSaving s \<and> c_timestamp d = Some ts \<and> ts \<noteq> 0 \<and> lastCloudTimestamp s < ts \<longrightarrow>
        lastCloudTimestamp (onCloudDataChange (Some d) s) = ts
        \<and> (\<forall>x. c_completedLearning d = Some x \<longrightarrow>
              completedLearning (onCloudDataChange (Some d) s) = new_Set x
              \<and> set (completedLearning (onCloudDataChange (Some d) s)) = set x)
        \<and> (\<forall>x. c_completedExam d = Some x \<longrightarrow>
              completedExam (onCloudDataChange (Some d) s) = new_Set x
              \<and> set (completedExam (onCloudDataChange (Some d) s)) = set x)
        \<and> (\<forall>x. c_history d = Some x \<longrightarrow> history (onCloudDataChange (Some d) s) = x)
        \<and> (\<forall>x. c_wrongCounts d = Some x \<longrightarrow> wrongCounts (onCloudDataChange (Some d) s) = x)
        \<and> (\<forall>x. c_exams d = Some x \<and> x \<noteq> [] \<longrightarrow> exams (onCloudDataChange (Some d) s) = x)
        \<and> (\<forall>x. c_questionMeta d = Some x \<longrightarrow>
              questionMeta (onCloudDataChange (Some d) s) = x)
        \<and> (\<forall>x. c_spacedRepetition d = Some x \<longrightarrow>
              spacedRepetition (onCloudDataChange (Some d) s) = x)
        \<and> (\<forall>x. c_examHistory d = Some x \<longrightarrow> examHistory (onCloudDataChange (Some d) s) = x)
        \<and> (c_completedLearning d = None \<longrightarrow>
              completedLearning (onCloudDataChange (Some d) s) = completedLearning s)
        \<and> (c_completedExam d = None \<longrightarrow>
              completedExam (onCloudDataChange (Some d) s) = completedExam s)
        \<and> (c_history d = None \<longrightarrow> history (onCloudDataChange (Some d) s) = history s)
        \<and> (c_wrongCounts d = None \<longrightarrow>
              wrongCounts (onCloudDataChange (Some d) s) = wrongCounts s)
        \<and> (c_exams d = None \<or> c_exams d = Some [] \<longrightarrow>
              exams (onCloudDataChange (Some d) s) = exams s)
        \<and> (c_questionMeta d = None \<longrightarrow>
              questionMeta (onCloudDataChange (Some d) s) = questionMeta s)
        \<and> (c_spacedRepetition d = None \<longrightarrow>
              spacedRepetition (onCloudDataChange (Some d) s) = spacedRepetition s)
        \<and> (c_examHistory d = None \<longrightarrow>
              examHistory (onCloudDataChange (Some d) s) = examHistory s))"
proof -
  have saving: "isSaving s \<longrightarrow> onCloudDataChange v s = s"
    by (simp add: onCloudDataChange_def)
  have none: "onCloudDataChange None s = s"
    by (simp add: onCloudDataChange_def)
  have absent: "c_timestamp d = None \<longrightarrow> onCloudDataChange (Some d) s = s"
    by (simp add: onCloudDataChange_def)
  have stale: "c_timestamp d = Some ts \<and> (ts \<le> lastCloudTimestamp s \<or> ts = 0) \<longrightarrow>
      onCloudDataChange (Some d) s = s"
    by (auto simp: onCloudDataChange_def)
  have newer: "onCloudDataChange (Some d) s = applyData (Some d) s"
    if "\<not> isSaving s" "c_timestamp d = Some ts" "ts \<noteq> 0" "lastCloudTimestamp s < ts"
    using that by (simp add: onCloudDataChange_def)
  show ?thesis
    apply (intro conjI saving none absent stale impI)
                    apply (simp_all add: newer applyData_fields set_new_Set)
    apply auto
    done
qed

text \<open>
  On the example: the document with timestamp 5000 reaches a local state with
  last-applied timestamp 100 and no write in flight. The history and wrong counts are
  replaced, the completed learning set is the set of the inbound array, the absent
  completedExam and the empty exams leave the local values, and the timestamp is 5000.
\<close>

theorem cloud_merge_by_timestamp_witness:
  "lastCloudTimestamp (onCloudDataChange (Some exampleCloud) exampleLocal) = 5000
   \<and> history (onCloudDataChange (Some exampleCloud) exampleLocal) = [exampleEntry]
   \<and> wrongCounts (onCloudDataChange (Some exampleCloud) exampleLocal) = [7 \<mapsto> 2]
   \<and> set (completedLearning (onCloudDataChange (Some exampleCloud) exampleLocal)) = {1, 2}
   \<and> completedExam (onCloudDataChange (Some exampleCloud) exampleLocal) = [0]
   \<and> exams (onCloudDataChange (Some exampleCloud) exampleLocal) = [[1, 2], [3, 4]]
   \<and> onCloudDataChange (Some (exampleCloud\<lparr>c_timestamp := Some 100\<rparr>)) exampleLocal
       = exampleLocal"
  using cloud_merge_by_timestamp [of exampleLocal "Some exampleCloud" exampleCloud 5000]
    cloud_merge_by_timestamp [of exampleLocal "Some exampleCloud"
      "exampleCloud\<lparr>c_timestamp := Some 100\<rparr>" 100]
  by (simp add: exampleCloud_def exampleLocal_def initialState_def set_new_Set insert_commute)

section \<open>Bookkeeping of the level update\<close>

lemma updateSpacedRepLevel_record:
  "getSpacedRepData (updateSpacedRepLevel qid ok unsure now s) qid =
     (getSpacedRepData s qid)
       \<lparr>level := newLevel (level (getSpacedRepData s qid)) ok unsure,
        lastSeen := now,
        seenCount := seenCount (getSpacedRepData s qid) + 1\<rparr>"
  by (simp add: updateSpacedRepLevel_def getSpacedRepData_def Let_def)

lemma updateSpacedRepLevel_keeps_position:
  "lastSeenPosition (getSpacedRepData (updateSpacedRepLevel qid ok unsure now s) q)
     = lastSeenPosition (getSpacedRepData s q)"
  by (simp add: updateSpacedRepLevel_def getSpacedRepData_def Let_def)

lemma srPassStep_keeps_position:
  "lastSeenPosition (getSpacedRepData (srPassStep now s qid) q)
     = lastSeenPosition (getSpacedRepData s q)"
  by (simp add: srPassStep_def updateSpacedRepLevel_keeps_position split: option.splits)

lemma srPass_keeps_position:
  "lastSeenPosition (getSpacedRepData (foldl (srPassStep now) s ids) q)
     = lastSeenPosition (getSpacedRepData s q)"
  by (induction ids arbitrary: s) (simp_all add: srPassStep_keeps_position)

lemma finishExam_spacedRepetition:
  "spacedRepetition (finishExam now s) = spacedRepetition
      (if currentMode s = Some SMART \<or> currentMode s = Some LEARNING
       then foldl (srPassStep now) s (stack s) else s)"
  by (simp add: finishExam_def quiz_finishExam_def addExamHistory_def addHistoryEntry_def
      markExamCompleted_def saveBaseState_def Let_def split: option.splits)

text \<open>Whatever the state, the end of a session leaves every \<open>lastSeenPosition\<close> as it was.\<close>

lemma finishExam_keeps_position:
  "lastSeenPosition (getSpacedRepData (finishExam now s) q)
     = lastSeenPosition (getSpacedRepData s q)"
proof -
  have "getSpacedRepData (finishExam now s) q = getSpacedRepData
      (if currentMode s = Some SMART \<or> currentMode s = Some LEARNING
       then foldl (srPassStep now) s (stack s) else s) q"
    by (simp only: getSpacedRepData_def finishExam_spacedRepetition)
  then show ?thesis
    by (simp add: srPass_keeps_position)
qed

text \<open>
  C3. The level update adds one to \<open>seenCount\<close> and sets \<open>lastSeen\<close> to the time of the
  call, but \<open>lastSeenPosition\<close> is not set to the position of the question in the
  session: \<open>finishExam\<close> never calls \<open>markQuestionSeen\<close>, the only function that writes
  it. At the end of the example session question 8, answered at position 1, has been
  seen once at time 9000 and still has no \<open>lastSeenPosition\<close>.
\<close>

theorem finishExam_leaves_position_unset:
  "spacedRepetition (finishExam 9000 exampleSession) 8
     = Some \<lparr>level = 0, lastSeen = 9000, seenCount = 1, lastSeenPosition = None\<rparr>
   \<and> spacedRepetition (finishExam 9000 exampleSession) 7
     = Some \<lparr>level = 2, lastSeen = 9000, seenCount = 1, lastSeenPosition = None\<rparr>
   \<and> lastSeenPosition (getSpacedRepData (markQuestionSeen 8 1 exampleSession) 8) = Some 1"
proof -
  note sr = finishExam_spacedRepetition
  have pass: "spacedRepetition (foldl (srPassStep 9000) exampleSession [7, 8])
      = [7 \<mapsto> \<lparr>level = 2, lastSeen = 9000, seenCount = 1, lastSeenPosition = None\<rparr>,
         8 \<mapsto> \<lparr>level = 0, lastSeen = 9000, seenCount = 1, lastSeenPosition = None\<rparr>]"
    by (simp add: exampleSession_def initialState_def srPassStep_def getQuestionState_def
        updateSpacedRepLevel_def getSpacedRepData_def newLevel_def MAX_LEVEL_def
        CORRECT_SURE_def CORRECT_NOT_SURE_def WRONG_DELTA_def Let_def)
  have st: "stack exampleSession = [7, 8]" "currentMode exampleSession = Some SMART"
    by (simp_all add: exampleSession_def initialState_def)
  have mark: "lastSeenPosition (getSpacedRepData (markQuestionSeen 8 1 exampleSession) 8)
      = Some 1"
    by (simp add: markQuestionSeen_def getSpacedRepData_def Let_def)
  have fin: "spacedRepetition (finishExam 9000 exampleSession)
      = [7 \<mapsto> \<lparr>level = 2, lastSeen = 9000, seenCount = 1, lastSeenPosition = None\<rparr>,
         8 \<mapsto> \<lparr>level = 0, lastSeen = 9000, seenCount = 1, lastSeenPosition = None\<rparr>]"
    unfolding sr st using pass by simp
  show ?thesis
    by (simp add: fin mark)
qed

section \<open>The four categories of the smart mode\<close>

lemma smart_step_counts:
  "mastered (foldl (smart_step sr) acc ids) + learning (foldl (smart_step sr) acc ids)
     + struggling (foldl (smart_step sr) acc ids) + notStarted (foldl (smart_step sr) acc ids)
   = mastered acc + learning acc + struggling acc + notStarted acc + length ids"
proof (induction ids arbitrary: acc)
  case Nil
  show ?case by simp
next
  case (Cons q ids)
  have "mastered (smart_step sr acc q) + learning (smart_step sr acc q)
      + struggling (smart_step sr acc q) + notStarted (smart_step sr acc q)
      = mastered acc + learning acc + struggling acc + notStarted acc + 1"
    by (simp add: smart_step_def split: option.splits)
  with Cons.IH [of "smart_step sr acc q"] show ?case by simp
qed

lemma smart_step_totalCount:
  "totalCount (foldl (smart_step sr) acc ids) = totalCount acc"
  by (induction ids arbitrary: acc) (simp_all add: smart_step_def split: option.splits)

lemma smart_step_each:
  assumes "validRecords sr ids"
  shows "mastered (foldl (smart_step sr) acc ids)
           = mastered acc + length (filter (isMastered sr) ids)
         \<and> learning (foldl (smart_step sr) acc ids)
           = learning acc + length (filter (isLearning sr) ids)
         \<and> struggling (foldl (smart_step sr) acc ids)
           = struggling acc + length (filter (isStruggling sr) ids)
         \<and> notStarted (foldl (smart_step sr) acc ids)
           = notStarted acc + length (filter (isNotStarted sr) ids)"
  using assms
proof (induction ids arbitrary: acc)
  case Nil
  show ?case by simp
next
  case (Cons q ids)
  from Cons.prems have vq: "case sr q of None \<Rightarrow> True | Some d \<Rightarrow> validRecord d"
    and vids: "validRecords sr ids"
    by (simp_all add: validRecords_def)
  have step: "mastered (smart_step sr acc q) = mastered acc + length (filter (isMastered sr) [q])
      \<and> learning (smart_step sr acc q) = learning acc + length (filter (isLearning sr) [q])
      \<and> struggling (smart_step sr acc q)
          = struggling acc + length (filter (isStruggling sr) [q])
      \<and> notStarted (smart_step sr acc q)
          = notStarted acc + length (filter (isNotStarted sr) [q])"
    using vq
    by (cases "sr q")
       (auto simp: smart_step_def isMastered_def isLearning_def isStruggling_def
          isNotStarted_def validRecord_def)
  from Cons.IH [OF vids, of "smart_step sr acc q"] step show ?case by simp
qed

lemma one_category:
  assumes "case sr q of None \<Rightarrow> True | Some d \<Rightarrow> validRecord d"
  shows "categoriesOf sr q = 1"
  using assms
  by (cases "sr q")
     (auto simp: categoriesOf_def isMastered_def isLearning_def isStruggling_def
        isNotStarted_def validRecord_def)

text \<open>
  C4. For every list of question ids and every mapping of spaced-repetition records,
  the four counts of \<open>getSmartStats\<close> add up to the total, which is the number of
  questions. When the records are those of the data model, each count is the number of
  questions of its category (mastered: level at least 4 and seen; learning: level 1 to
  3 and seen; struggling: level 0 and seen; not started: no record or never seen), and
  every question is in exactly one of the four categories.
\<close>

theorem smart_stats_partition:
  "mastered (getSmartStats s) + learning (getSmartStats s) + struggling (getSmartStats s)
     + notStarted (getSmartStats s) = totalCount (getSmartStats s)
   \<and> totalCount (getSmartStats s) = length (allQuestionIds s)
   \<and> (validRecords (spacedRepetition s) (allQuestionIds s) \<longrightarrow>
        mastered (getSmartStats s)
          = length (filter (isMastered (spacedRepetition s)) (allQuestionIds s))
        \<and> learning (getSmartStats s)
          = length (filter (isLearning (spacedRepetition s)) (allQuestionIds s))
        \<and> struggling (getSmartStats s)
          = length (filter (isStruggling (spacedRepetition s)) (allQuestionIds s))
        \<and> notStarted (getSmartStats s)
          = length (filter (isNotStarted (spacedRepetition s)) (allQuestionIds s))
        \<and> (\<forall>q \<in> set (allQuestionIds s). categoriesOf (spacedRepetition s) q = 1))"
proof (intro conjI impI)
  show "mastered (getSmartStats s) + learning (getSmartStats s) + struggling (getSmartStats s)
     + notStarted (getSmartStats s) = totalCount (getSmartStats s)"
    by (simp add: getSmartStats_def Let_def smart_step_counts smart_step_totalCount)
  show "totalCount (getSmartStats s) = length (allQuestionIds s)"
    by (simp add: getSmartStats_def Let_def smart_step_totalCount)
next
  assume v: "validRecords (spacedRepetition s) (allQuestionIds s)"
  note each = smart_step_each [OF v]
  show "mastered (getSmartStats s)
      = length (filter (isMastered (spacedRepetition s)) (allQuestionIds s))"
    by (simp add: getSmartStats_def Let_def each)
  show "learning (getSmartStats s)
      = length (filter (isLearning (spacedRepetition s)) (allQuestionIds s))"
    by (simp add: getSmartStats_def Let_def each)
  show "struggling (getSmartStats s)
      = length (filter (isStruggling (spacedRepetition s)) (allQuestionIds s))"
    by (simp add: getSmartStats_def Let_def each)
  show "notStarted (getSmartStats s)
      = length (filter (isNotStarted (spacedRepetition s)) (allQuestionIds s))"
    by (simp add: getSmartStats_def Let_def each)
  show "\<forall>q \<in> set (allQuestionIds s). categoriesOf (spacedRepetition s) q = 1"
  proof
    fix q assume "q \<in> set (allQuestionIds s)"
    with v have "case spacedRepetition s q of None \<Rightarrow> True | Some d \<Rightarrow> validRecord d"
      by (simp add: validRecords_def list_all_iff)
    then show "categoriesOf (spacedRepetition s) q = 1"
      by (rule one_category)
  qed
qed

text \<open>
  On the example progress the counts are 1 mastered, 1 learning, 1 struggling and 2
  not started, of 5 questions.
\<close>

theorem smart_stats_partition_witness:
  "validRecords (spacedRepetition exampleProgress) (allQuestionIds exampleProgress)
   \<and> mastered (getSmartStats exampleProgress) = 1
   \<and> learning (getSmartStats exampleProgress) = 1
   \<and> struggling (getSmartStats exampleProgress) = 1
   \<and> notStarted (getSmartStats exampleProgress) = 2
   \<and> totalCount (getSmartStats exampleProgress) = 5
   \<and> categoriesOf (spacedRepetition exampleProgress) 3 = 1"
proof -
  have v: "validRecords (spacedRepetition exampleProgress) (allQuestionIds exampleProgress)"
    by (simp add: exampleProgress_def initialState_def validRecords_def validRecord_def)
  have f: "filter (isMastered (spacedRepetition exampleProgress)) [1, 2, 3, 4, 5] = [1]"
    "filter (isLearning (spacedRepetition exampleProgress)) [1, 2, 3, 4, 5] = [2]"
    "filter (isStruggling (spacedRepetition exampleProgress)) [1, 2, 3, 4, 5] = [3]"
    "filter (isNotStarted (spacedRepetition exampleProgress)) [1, 2, 3, 4, 5] = [4, 5]"
    by (simp_all add: exampleProgress_def initialState_def isMastered_def isLearning_def
        isStruggling_def isNotStarted_def)
  have ids: "allQuestionIds exampleProgress = [1, 2, 3, 4, 5]"
    by (simp add: exampleProgress_def initialState_def)
  note th = smart_stats_partition [of exampleProgress, unfolded ids f]
  from th v [unfolded ids] show ?thesis
    unfolding ids by simp
qed

section \<open>Rounding to the nearest double\<close>

lemma nearestEven_int [simp]: "nearestEven (of_int m) = m"
  by (simp add: nearestEven_def)

lemma nearestEven_bounds:
  "\<lfloor>y\<rfloor> \<le> nearestEven y" "nearestEven y \<le> \<lfloor>y\<rfloor> + 1"
  by (simp_all add: nearestEven_def Let_def)

lemma nearestEven_mono:
  assumes "y \<le> z"
  shows "nearestEven y \<le> nearestEven z"
proof (cases "\<lfloor>y\<rfloor> = \<lfloor>z\<rfloor>")
  case True
  with assms show ?thesis
    by (auto simp: nearestEven_def Let_def)
next
  case False
  with assms have "\<lfloor>y\<rfloor> < \<lfloor>z\<rfloor>"
    by (simp add: floor_mono order.not_eq_order_implies_strict)
  then have "nearestEven y \<le> \<lfloor>z\<rfloor>"
    using nearestEven_bounds(2) [of y] by linarith
  then show ?thesis
    using nearestEven_bounds(1) [of z] by linarith
qed

lemma nearestEven_le:
  assumes "y \<le> of_int m"
  shows "nearestEven y \<le> m"
  using nearestEven_mono [OF assms] by simp

lemma nearestEven_ge:
  assumes "of_int m \<le> y"
  shows "m \<le> nearestEven y"
  using nearestEven_mono [OF assms] by simp

lemma nearestEven_below_half:
  assumes "y < of_int m - 1 / 2"
  shows "nearestEven y \<le> m - 1"
proof -
  have f: "\<lfloor>y\<rfloor> \<le> m - 1"
    using assms by linarith
  show ?thesis
  proof (cases "\<lfloor>y\<rfloor> = m - 1")
    case True
    then have "y - of_int \<lfloor>y\<rfloor> < 1 / 2"
      using assms by simp
    then show ?thesis
      using True by (simp add: nearestEven_def Let_def)
  next
    case False
    with f have "\<lfloor>y\<rfloor> + 1 \<le> m - 1" by linarith
    then show ?thesis
      using nearestEven_bounds(2) [of y] by linarith
  qed
qed

lemma pow2_pos [simp]: "0 < pow2 e"
  by (simp add: pow2_def)

lemma pow2_neq0 [simp]: "pow2 e \<noteq> 0"
  by (simp add: pow2_def)

lemma pow2_add: "pow2 (a + b) = pow2 a * pow2 b"
  by (simp add: pow2_def powr_add)

lemma pow2_mono: "a \<le> b \<Longrightarrow> pow2 a \<le> pow2 b"
  by (simp add: pow2_def)

lemma pow2_strict_mono: "a < b \<Longrightarrow> pow2 a < pow2 b"
  by (simp add: pow2_def)

lemma pow2_nat: "pow2 (int n) = 2 ^ n"
  by (simp add: pow2_def powr_realpow)

lemma pow2_of_int: "0 \<le> e \<Longrightarrow> pow2 e = of_int (2 ^ nat e)"
  using pow2_nat [of "nat e"] by simp

lemma ulp_pos [simp]: "0 < ulp x"
  by (simp add: ulp_def)

lemma ulp_nonneg [simp]: "0 \<le> ulp x"
  by (simp add: ulp_def less_imp_le)

lemma expo_minus [simp]: "expo (- x) = expo x"
  by (simp add: expo_def)

lemma ulp_minus [simp]: "ulp (- x) = ulp x"
  by (simp add: ulp_def)

lemma binary64_minus: "binary64 (- x) = - binary64 x"
  by (simp add: binary64_def sgn_minus)

lemma binary64_nonneg: "0 \<le> x \<Longrightarrow> 0 \<le> binary64 x"
  by (auto simp: binary64_def sgn_if less_imp_le [OF ulp_pos]
      intro!: mult_nonneg_nonneg nearestEven_ge divide_nonneg_pos)

lemma binary64_pos_eq:
  "0 < x \<Longrightarrow> binary64 x = of_int (nearestEven (x / ulp x)) * ulp x"
  by (simp add: binary64_def)

text \<open>The binade of a positive number.\<close>

lemma expo_normal:
  assumes "0 < x" "pow2 e \<le> x" "x < pow2 (e + 1)" "- 1022 \<le> e"
  shows "expo x = e"
proof -
  have "\<lfloor>log 2 x\<rfloor> = e"
    using assms by (subst floor_log_eq_powr_iff) (simp_all add: pow2_def)
  with assms show ?thesis by (simp add: expo_def)
qed

lemma expo_range:
  assumes "0 < x"
  shows "x < pow2 (expo x + 1)"
    and "- 1022 < expo x \<Longrightarrow> pow2 (expo x) \<le> x"
    and "- 1022 \<le> expo x"
proof -
  define k where "k = \<lfloor>log 2 x\<rfloor>"
  have k: "pow2 k \<le> x" "x < pow2 (k + 1)"
    using floor_log_eq_powr_iff [of x 2 k] assms by (simp_all add: k_def pow2_def)
  have e: "expo x = max k (- 1022)"
    using assms by (simp add: expo_def k_def)
  have "k + 1 \<le> expo x + 1" by (simp add: e)
  then have "pow2 (k + 1) \<le> pow2 (expo x + 1)"
    by (rule pow2_mono)
  with k(2) show "x < pow2 (expo x + 1)" by linarith
  show "- 1022 \<le> expo x" by (simp add: e)
  show "pow2 (expo x) \<le> x" if "- 1022 < expo x"
  proof -
    from that have "expo x = k" by (simp add: e max_def split: if_splits)
    with k(1) show ?thesis by simp
  qed
qed

lemma expo_mono:
  assumes "0 < x" "x \<le> y"
  shows "expo x \<le> expo y"
proof -
  have "log 2 x \<le> log 2 y"
    using assms by simp
  then have "\<lfloor>log 2 x\<rfloor> \<le> \<lfloor>log 2 y\<rfloor>"
    by (rule floor_mono)
  with assms show ?thesis
    by (simp add: expo_def)
qed


text \<open>The scaled magnitude lies between \<open>2^52\<close> and \<open>2^53\<close>.\<close>

lemma scaled_upper:
  assumes "0 < x"
  shows "x / ulp x < of_int (2 ^ 53)"
proof -
  have "pow2 (expo x + 1) = pow2 ((expo x - 52) + 53)"
    by (rule arg_cong [of _ _ pow2]) simp
  also have "\<dots> = pow2 (expo x - 52) * pow2 53"
    by (rule pow2_add)
  also have "pow2 53 = of_int (2 ^ 53)"
    using pow2_of_int [of 53] by simp
  finally have "x < ulp x * of_int (2 ^ 53)"
    using expo_range(1) [OF assms] by (simp add: ulp_def)
  then show ?thesis
    by (simp add: pos_divide_less_eq mult.commute)
qed

lemma scaled_lower:
  assumes "0 < x" "pow2 (expo x) \<le> x"
  shows "of_int (2 ^ 52) \<le> x / ulp x"
proof -
  have "pow2 (expo x) = pow2 ((expo x - 52) + 52)"
    by (rule arg_cong [of _ _ pow2]) simp
  also have "\<dots> = pow2 (expo x - 52) * pow2 52"
    by (rule pow2_add)
  also have "pow2 52 = of_int (2 ^ 52)"
    using pow2_of_int [of 52] by simp
  finally have "ulp x * of_int (2 ^ 52) \<le> x"
    using assms(2) by (simp add: ulp_def)
  then show ?thesis
    by (simp add: pos_le_divide_eq mult.commute)
qed

lemma binary64_upper:
  assumes "0 < x"
  shows "binary64 x \<le> pow2 (expo x + 1)"
proof -
  have "nearestEven (x / ulp x) \<le> 2 ^ 53"
    using scaled_upper [OF assms] by (intro nearestEven_le) simp
  then have "real_of_int (nearestEven (x / ulp x)) \<le> of_int (2 ^ 53)"
    by (simp only: of_int_le_iff)
  then have "of_int (nearestEven (x / ulp x)) * ulp x \<le> of_int (2 ^ 53) * ulp x"
    by (intro mult_right_mono) simp_all
  also have "of_int (2 ^ 53) * ulp x = pow2 53 * pow2 (expo x - 52)"
    using pow2_of_int [of 53] by (simp add: ulp_def)
  also have "\<dots> = pow2 (53 + (expo x - 52))"
    by (rule pow2_add [symmetric])
  also have "\<dots> = pow2 (expo x + 1)"
    by (rule arg_cong [of _ _ pow2]) simp
  finally show ?thesis
    using assms by (simp add: binary64_pos_eq)
qed

lemma binary64_lower:
  assumes "0 < x" "pow2 (expo x) \<le> x"
  shows "pow2 (expo x) \<le> binary64 x"
proof -
  have "2 ^ 52 \<le> nearestEven (x / ulp x)"
    using scaled_lower [OF assms] by (intro nearestEven_ge) simp
  then have "of_int (2 ^ 52) \<le> real_of_int (nearestEven (x / ulp x))"
    by (simp only: of_int_le_iff)
  then have a: "of_int (2 ^ 52) * ulp x \<le> of_int (nearestEven (x / ulp x)) * ulp x"
    by (intro mult_right_mono) simp_all
  have "of_int (2 ^ 52) * ulp x = pow2 52 * pow2 (expo x - 52)"
    using pow2_of_int [of 52] by (simp add: ulp_def)
  also have "\<dots> = pow2 (52 + (expo x - 52))"
    by (rule pow2_add [symmetric])
  also have "\<dots> = pow2 (expo x)"
    by (rule arg_cong [of _ _ pow2]) simp
  finally have "pow2 (expo x) \<le> of_int (nearestEven (x / ulp x)) * ulp x"
    using a by simp
  then show ?thesis
    by (simp only: binary64_pos_eq [OF assms(1)])
qed

lemma binary64_mono_pos:
  assumes "0 < x" "x \<le> y"
  shows "binary64 x \<le> binary64 y"
proof (cases "expo x = expo y")
  case True
  then have u: "ulp x = ulp y" by (simp add: ulp_def)
  have "x / ulp y \<le> y / ulp y"
    using assms(2) by (intro divide_right_mono) simp_all
  then have "nearestEven (x / ulp y) \<le> nearestEven (y / ulp y)"
    by (rule nearestEven_mono)
  then have "real_of_int (nearestEven (x / ulp y)) * ulp y
      \<le> real_of_int (nearestEven (y / ulp y)) * ulp y"
    by (intro mult_right_mono) simp_all
  with assms u show ?thesis
    by (simp add: binary64_pos_eq)
next
  case False
  with expo_mono [OF assms] have lt: "expo x < expo y" by simp
  from assms have y: "0 < y" by simp
  have "- 1022 < expo y"
    using lt expo_range(3) [OF assms(1)] by simp
  then have "pow2 (expo y) \<le> y"
    by (rule expo_range(2) [OF y])
  then have "pow2 (expo y) \<le> binary64 y"
    by (rule binary64_lower [OF y])
  moreover have "pow2 (expo x + 1) \<le> pow2 (expo y)"
    using lt by (intro pow2_mono) simp
  ultimately show ?thesis
    using binary64_upper [OF assms(1)] by linarith
qed

lemma binary64_mono:
  assumes "x \<le> y"
  shows "binary64 x \<le> binary64 y"
proof -
  consider "0 < x" | "x \<le> 0" "0 \<le> y" | "y < 0" by linarith
  then show ?thesis
  proof cases
    case 1
    then show ?thesis using assms by (rule binary64_mono_pos)
  next
    case 2
    then have "0 \<le> binary64 (- x)" "0 \<le> binary64 y"
      by (simp_all add: binary64_nonneg)
    then show ?thesis by (simp add: binary64_minus)
  next
    case 3
    then have "binary64 (- y) \<le> binary64 (- x)"
      using assms by (intro binary64_mono_pos) simp_all
    then show ?thesis by (simp add: binary64_minus)
  qed
qed


lemma pow2_0 [simp]: "pow2 0 = 1"
  by (simp add: pow2_def)

lemma pow2_diff: "pow2 (a - b) = pow2 a / pow2 b"
  by (simp add: pow2_def powr_diff)

lemma pow2_1 [simp]: "pow2 1 = 2"
  by (simp add: pow2_def)

lemma pow2_plus1: "pow2 (e + 1) = 2 * pow2 e"
  by (simp add: pow2_add)

lemma ulp_neq0 [simp]: "ulp x \<noteq> 0"
  by (simp add: ulp_def pow2_def)

text \<open>A positive number whose scaled magnitude is an integer is its own rounding.\<close>

lemma binary64_exact:
  assumes "0 < x" "x / ulp x = of_int m"
  shows "binary64 x = x"
proof -
  have "binary64 x = of_int m * ulp x"
    using assms by (simp add: binary64_pos_eq)
  also have "\<dots> = x / ulp x * ulp x"
    by (simp only: assms(2))
  also have "\<dots> = x"
    by simp
  finally show ?thesis .
qed

lemma expo_of_int:
  assumes "1 \<le> n" "n \<le> 2 ^ 53"
  shows "0 \<le> expo (of_int n)" "expo (of_int n) \<le> 53"
    "pow2 (expo (of_int n)) \<le> of_int n" "of_int n < pow2 (expo (of_int n) + 1)"
proof -
  let ?x = "real_of_int n"
  from assms have pos: "0 < ?x" by simp
  have "0 \<le> log 2 ?x"
    using assms by simp
  then have "0 \<le> \<lfloor>log 2 ?x\<rfloor>" by simp
  then show e0: "0 \<le> expo ?x"
    using pos by (simp add: expo_def le_max_iff_disj)
  then show lo: "pow2 (expo ?x) \<le> ?x"
    by (intro expo_range(2) [OF pos]) simp
  show "?x < pow2 (expo ?x + 1)"
    by (rule expo_range(1) [OF pos])
  show "expo ?x \<le> 53"
  proof (rule ccontr)
    assume "\<not> expo ?x \<le> 53"
    then have "pow2 54 \<le> pow2 (expo ?x)"
      by (intro pow2_mono) simp
    moreover have "pow2 54 = of_int (2 ^ 54)"
      using pow2_of_int [of 54] by simp
    moreover have "?x \<le> of_int (2 ^ 53)"
      using assms(2) by (simp only: of_int_le_iff)
    ultimately show False
      using lo by simp
  qed
qed

lemma scaled_of_int:
  assumes "1 \<le> n" "n \<le> 2 ^ 53" "expo (of_int n) \<le> 52"
  shows "real_of_int n / ulp (of_int n) = of_int (n * 2 ^ nat (52 - expo (of_int n)))"
proof -
  let ?e = "expo (real_of_int n)"
  have "ulp (of_int n) = pow2 (0 - (52 - ?e))"
    unfolding ulp_def by (rule arg_cong [of _ _ pow2]) simp
  also have "\<dots> = 1 / pow2 (52 - ?e)"
    by (simp only: pow2_diff pow2_0)
  also have "pow2 (52 - ?e) = of_int (2 ^ nat (52 - ?e))"
    using assms(3) by (intro pow2_of_int) simp
  finally show ?thesis by simp
qed

lemma binary64_of_int_pos:
  assumes "1 \<le> n" "n \<le> 2 ^ 53"
  shows "binary64 (of_int n) = of_int n"
proof (cases "expo (real_of_int n) \<le> 52")
  case True
  show ?thesis
    using assms by (intro binary64_exact [OF _ scaled_of_int [OF assms True]]) simp
next
  case False
  with expo_of_int(2) [OF assms] have e: "expo (real_of_int n) = 53" by simp
  have "pow2 53 = of_int (2 ^ 53)"
    using pow2_of_int [of 53] by simp
  with expo_of_int(3) [OF assms] e assms(2) have n: "n = 2 ^ 53"
    by simp
  have "ulp (real_of_int n) = pow2 1"
    by (simp add: ulp_def e)
  also have "pow2 1 = 2"
    by simp
  finally have "real_of_int n / ulp (of_int n) = of_int (2 ^ 52)"
    by (simp add: n)
  then show ?thesis
    using assms by (intro binary64_exact) simp_all
qed

text \<open>Every integer of magnitude at most \<open>2^53\<close> is a double.\<close>

lemma binary64_of_int:
  assumes "\<bar>n\<bar> \<le> 2 ^ 53"
  shows "binary64 (of_int n) = of_int n"
proof -
  consider "n = 0" | "1 \<le> n" | "1 \<le> - n" by linarith
  then show ?thesis
  proof cases
    case 1
    then show ?thesis by (simp add: binary64_def)
  next
    case 2
    with assms show ?thesis by (intro binary64_of_int_pos) simp_all
  next
    case 3
    with assms have "binary64 (of_int (- n)) = of_int (- n)"
      by (intro binary64_of_int_pos) simp_all
    then show ?thesis
      using binary64_minus [of "of_int n"] by simp
  qed
qed


lemma pow2_m53_less_1: "pow2 (- 53) < 1"
  using pow2_strict_mono [of "- 53" 0] by simp

lemma int53_scaled: "of_int (2 ^ 53) * pow2 (- 53) = 1"
proof -
  have "of_int (2 ^ 53) = pow2 53"
    using pow2_of_int [of 53] by simp
  then have "of_int (2 ^ 53) * pow2 (- 53) = pow2 (53 + (- 53))"
    by (simp only: pow2_add)
  then show ?thesis by simp
qed

text \<open>The largest double below 1 is \<open>1 - 2^-53\<close>.\<close>

lemma double_below_one:
  assumes "isDouble r" "0 \<le> r" "r < 1"
  shows "r \<le> 1 - pow2 (- 53)"
proof (cases "r = 0")
  case True
  then show ?thesis
    using pow2_m53_less_1 by simp
next
  case False
  with assms have pos: "0 < r" by simp
  have "log 2 r < 0"
    using pos assms(3) by simp
  then have "\<lfloor>log 2 r\<rfloor> \<le> - 1"
    by linarith
  moreover have "expo r = max \<lfloor>log 2 r\<rfloor> (- 1022)"
    using pos by (simp add: expo_def)
  ultimately have e: "expo r \<le> - 1"
    by linarith
  define N where "N = nearestEven (r / ulp r)"
  have rN: "r = of_int N * ulp r"
    using assms(1) pos by (simp add: isDouble_def binary64_pos_eq N_def)
  have "r / ulp r = of_int N"
    by (subst rN) simp
  with scaled_upper [OF pos] have "real_of_int N < of_int (2 ^ 53)"
    by simp
  then have "N < 2 ^ 53"
    by (simp only: of_int_less_iff)
  then have "N \<le> 2 ^ 53 - 1" by simp
  then have N: "real_of_int N \<le> of_int (2 ^ 53 - 1)"
    by (simp only: of_int_le_iff)
  have u: "ulp r \<le> pow2 (- 53)"
    unfolding ulp_def using e by (intro pow2_mono) simp
  have "r \<le> of_int (2 ^ 53 - 1) * ulp r"
    by (subst rN) (intro mult_right_mono N ulp_nonneg)
  also have "\<dots> \<le> of_int (2 ^ 53 - 1) * pow2 (- 53)"
    using u by (intro mult_left_mono) simp_all
  also have "\<dots> = of_int (2 ^ 53) * pow2 (- 53) - pow2 (- 53)"
    by (simp add: algebra_simps)
  also have "\<dots> = 1 - pow2 (- 53)"
    by (simp only: int53_scaled)
  finally show ?thesis .
qed

text \<open>
  Just below an integer \<open>n\<close> of at most \<open>2^53\<close>: the product of \<open>n\<close> and the largest
  double below 1 rounds to a double below \<open>n\<close>.
\<close>

lemma below_int:
  assumes "1 \<le> n" "n \<le> 2 ^ 53"
  shows "binary64 (of_int n * (1 - pow2 (- 53))) < of_int n"
proof -
  define x where "x = real_of_int n"
  define e where "e = expo x"
  define z where "z = x * (1 - pow2 (- 53))"
  have e: "0 \<le> e" "e \<le> 53" "pow2 e \<le> x" "x < pow2 (e + 1)"
    using expo_of_int [OF assms] by (simp_all add: x_def e_def)
  have xpos: "0 < x" using assms by (simp add: x_def)
  have zpos: "0 < z"
    unfolding z_def using xpos pow2_m53_less_1 by simp
  have zx: "z = x - x * pow2 (- 53)"
    by (simp add: z_def algebra_simps)
  have zlt: "z < x"
    unfolding zx using xpos by simp
  have shift: "pow2 e * pow2 (- 53) = pow2 (e - 53)"
    unfolding pow2_add [symmetric] by simp
  have "binary64 z < x"
  proof (cases "x = pow2 e")
    case True
    have z1: "z = pow2 e - pow2 (e - 53)"
      by (simp add: zx True shift)
    have half: "pow2 (e - 53) \<le> pow2 (e - 1)"
      by (intro pow2_mono) simp
    have "pow2 e = 2 * pow2 (e - 1)"
      using pow2_plus1 [of "e - 1"] by simp
    with half have lo: "pow2 (e - 1) \<le> z"
      by (simp add: z1)
    have hi: "z < pow2 (e - 1 + 1)"
      using zlt True by simp
    have ez: "expo z = e - 1"
      using zpos lo hi e(1) by (intro expo_normal) simp_all
    have uz: "ulp z = pow2 (e - 53)"
      unfolding ulp_def ez by (rule arg_cong [of _ _ pow2]) simp
    have "pow2 e = pow2 53 * pow2 (e - 53)"
      unfolding pow2_add [symmetric] by (rule arg_cong [of _ _ pow2]) simp
    also have "pow2 53 = of_int (2 ^ 53)"
      using pow2_of_int [of 53] by simp
    finally have zeq: "z = of_int (2 ^ 53 - 1) * pow2 (e - 53)"
      by (simp add: z1 algebra_simps)
    have "z / ulp z = of_int (2 ^ 53 - 1)"
      unfolding uz by (subst zeq) simp
    then have "binary64 z = z"
      by (rule binary64_exact [OF zpos])
    with zlt show ?thesis by simp
  next
    case False
    with e(3) have gt: "pow2 e < x" by simp
    have e52: "e \<le> 52"
    proof (rule ccontr)
      assume "\<not> e \<le> 52"
      with e(2) have "e = 53" by simp
      moreover have "pow2 53 = of_int (2 ^ 53)"
        using pow2_of_int [of 53] by simp
      moreover have "x \<le> of_int (2 ^ 53)"
        unfolding x_def using assms(2) by (simp only: of_int_le_iff)
      ultimately show False using gt by simp
    qed
    have pe: "pow2 e = of_int (2 ^ nat e)"
      using e(1) by (rule pow2_of_int)
    with gt have "2 ^ nat e < n"
      by (simp add: x_def)
    then have "2 ^ nat e + 1 \<le> n" by simp
    then have "real_of_int (2 ^ nat e + 1) \<le> of_int n"
      by (simp only: of_int_le_iff)
    then have x1: "pow2 e + 1 \<le> x"
      by (simp add: pe x_def)
    define u where "u = pow2 (e - 52)"
    have u1: "u \<le> 1"
      using pow2_mono [of "e - 52" 0] e52 by (simp add: u_def)
    have upos: "0 < u" by (simp add: u_def)
    have "pow2 (e + 1) * pow2 (- 53) = u"
      unfolding pow2_add [symmetric] u_def by (rule arg_cong [of _ _ pow2]) simp
    moreover have "x * pow2 (- 53) < pow2 (e + 1) * pow2 (- 53)"
      using e(4) by (intro mult_strict_right_mono) simp_all
    ultimately have t1: "x * pow2 (- 53) < u" by simp
    have ez: "expo z = e"
    proof (rule expo_normal [OF zpos])
      show "pow2 e \<le> z" using x1 t1 u1 by (simp add: zx)
      show "z < pow2 (e + 1)" using zlt e(4) by simp
      show "- 1022 \<le> e" using e(1) by simp
    qed
    have uz: "ulp z = u" by (simp add: ulp_def ez u_def)
    have ux: "ulp x = u" by (simp add: ulp_def e_def [symmetric] u_def)
    define M where "M = n * 2 ^ nat (52 - e)"
    have xM: "x / u = of_int M"
      using scaled_of_int [OF assms] e52 by (simp add: x_def [symmetric] e_def [symmetric] ux M_def)
    have "u = 2 * pow2 (e - 53)"
      using pow2_plus1 [of "e - 53"] by (simp add: u_def)
    then have "u / 2 = pow2 e * pow2 (- 53)"
      by (simp add: shift)
    also have "\<dots> < x * pow2 (- 53)"
      using gt by (intro mult_strict_right_mono) simp_all
    finally have "1 / 2 < x * pow2 (- 53) / u"
      using upos by (simp add: pos_less_divide_eq)
    moreover have "z / u = x / u - x * pow2 (- 53) / u"
      by (simp add: zx diff_divide_distrib)
    ultimately have "z / u < of_int M - 1 / 2"
      by (simp add: xM)
    then have "nearestEven (z / u) \<le> M - 1"
      by (rule nearestEven_below_half)
    then have "real_of_int (nearestEven (z / u)) \<le> of_int (M - 1)"
      by (simp only: of_int_le_iff)
    then have "of_int (nearestEven (z / u)) * u \<le> of_int (M - 1) * u"
      using upos by (intro mult_right_mono) simp_all
    also have "of_int (M - 1) * u = x / u * u - u"
      by (simp add: xM algebra_simps)
    also have "\<dots> = x - u"
      using upos by simp
    finally have "binary64 z \<le> x - u"
      using zpos by (simp add: binary64_pos_eq uz)
    with upos show ?thesis by simp
  qed
  then show ?thesis by (simp add: z_def x_def)
qed

text \<open>
  \<^verbatim>\<open>Math.floor(Math.random() * n)\<close> is an index below \<open>n\<close>.
\<close>

lemma random_index:
  assumes "isDouble r" "0 \<le> r" "r < 1" "0 < n" "n \<le> 2 ^ 53"
  shows "nat \<lfloor>binary64 (r * real n)\<rfloor> < n"
proof -
  have n: "1 \<le> int n" "int n \<le> 2 ^ 53"
    using assms(4,5) by simp_all
  have "r * real n \<le> (1 - pow2 (- 53)) * real n"
    using double_below_one [OF assms(1-3)] by (intro mult_right_mono) simp_all
  then have "r * real n \<le> of_int (int n) * (1 - pow2 (- 53))"
    by (simp add: mult.commute)
  then have "binary64 (r * real n) \<le> binary64 (of_int (int n) * (1 - pow2 (- 53)))"
    by (rule binary64_mono)
  also have "\<dots> < of_int (int n)"
    by (rule below_int [OF n])
  finally have "binary64 (r * real n) < real n" by simp
  moreover have "0 \<le> binary64 (r * real n)"
    using assms(2) by (intro binary64_nonneg) simp
  ultimately show ?thesis
    by (simp add: floor_less_iff nat_less_iff)
qed

section \<open>Priority of questions never seen\<close>

subsection \<open>The score of a question never seen\<close>

lemma binary64_0 [simp]: "binary64 0 = 0"
  by (simp add: binary64_def)

lemma binary64_100: "binary64 100 = 100"
  using binary64_of_int [of 100] by simp

lemma binary64_m1000: "binary64 (- 1000) = - 1000"
  using binary64_of_int [of "- 1000"] by simp

lemma binary64_m900: "binary64 (- 900) = - 900"
  using binary64_of_int [of "- 900"] by simp

lemma jitter_bounds:
  assumes "r < 1"
  shows "binary64 (r * 100) \<le> 100" and "0 \<le> r \<Longrightarrow> 0 \<le> binary64 (r * 100)"
proof -
  have "binary64 (r * 100) \<le> binary64 100"
    using assms by (intro binary64_mono) simp
  then show "binary64 (r * 100) \<le> 100"
    by (simp only: binary64_100)
  show "0 \<le> binary64 (r * 100)" if "0 \<le> r"
    using that by (intro binary64_nonneg) simp
qed

lemma never_seen_score:
  assumes "neverSeen s q"
  shows "calculatePriority s q pos r = binary64 (- 1000 + binary64 (r * 100))"
  using assms by (simp add: calculatePriority_def neverSeen_def Let_def)

lemma never_seen_score_upper:
  assumes "neverSeen s q" "r < 1"
  shows "calculatePriority s q pos r \<le> - 900"
proof -
  have "binary64 (- 1000 + binary64 (r * 100)) \<le> binary64 (- 900)"
    using jitter_bounds(1) [OF assms(2)] by (intro binary64_mono) simp
  then show ?thesis
    by (simp only: never_seen_score [OF assms(1)] binary64_m900)
qed

lemma never_seen_score_lower:
  assumes "neverSeen s q" "0 \<le> r" "r < 1"
  shows "- 1000 \<le> calculatePriority s q pos r"
proof -
  have "binary64 (- 1000) \<le> binary64 (- 1000 + binary64 (r * 100))"
    using jitter_bounds(2) [OF assms(3,2)] by (intro binary64_mono) simp
  then show ?thesis
    by (simp only: never_seen_score [OF assms(1)] binary64_m1000)
qed

lemma never_seen_score_mono:
  assumes "neverSeen s q" "neverSeen s q'" "r \<le> r'"
  shows "calculatePriority s q pos r \<le> calculatePriority s q' pos' r'"
proof -
  have "binary64 (r * 100) \<le> binary64 (r' * 100)"
    using assms(3) by (intro binary64_mono) simp
  then have "binary64 (- 1000 + binary64 (r * 100)) \<le> binary64 (- 1000 + binary64 (r' * 100))"
    by (intro binary64_mono) simp
  then show ?thesis
    by (simp only: never_seen_score [OF assms(1)] never_seen_score [OF assms(2)])
qed

subsection \<open>The ends of the range of scores\<close>

lemma pow2_numeral: "pow2 (numeral k) = 2 ^ numeral k"
  by (simp add: pow2_def)

lemma pow2_neg_numeral: "pow2 (- numeral k) = 1 / 2 ^ numeral k"
  by (simp add: pow2_def powr_minus_divide)

lemma nearestEven_add_small:
  assumes "0 \<le> d" "d < 1 / 2"
  shows "nearestEven (of_int m + d) = m"
proof -
  have "\<lfloor>of_int m + d\<rfloor> = m"
    using assms by linarith
  then show ?thesis
    using assms by (simp add: nearestEven_def Let_def)
qed

lemma nearestEven_sub_small:
  assumes "0 < d" "d < 1 / 2"
  shows "nearestEven (of_int m - d) = m"
proof -
  have "\<lfloor>of_int m - d\<rfloor> = m - 1"
    using assms by linarith
  then show ?thesis
    using assms by (simp add: nearestEven_def Let_def)
qed

lemma binary64_eval:
  assumes "0 < x" "pow2 e \<le> x" "x < pow2 (e + 1)" "- 1022 \<le> e"
  shows "binary64 x = of_int (nearestEven (x / pow2 (e - 52))) * pow2 (e - 52)"
  using assms by (simp add: binary64_pos_eq ulp_def expo_normal)

text \<open>
  With the largest draw of 52 bits the product \<open>100 - 100 / 2^52\<close> rounds to
  \<open>100 - 2^-45\<close> and the sum to -900: the score of a new question can be -900 itself.
\<close>

lemma largest_jitter: "binary64 ((1 - pow2 (- 52)) * 100) = 100 - 1 / 2 ^ 45"
proof -
  define x :: real where "x = (1 - pow2 (- 52)) * 100"
  have xv: "x = 100 - 100 / 2 ^ 52"
    by (simp add: x_def pow2_neg_numeral algebra_simps)
  have eq: "x / pow2 (6 - 52) = of_int (100 * 2 ^ 46 - 2) + 7 / 16"
    by (simp add: xv pow2_neg_numeral)
  have "nearestEven (x / pow2 (6 - 52)) = nearestEven (of_int (100 * 2 ^ 46 - 2) + 7 / 16)"
    by (simp only: eq)
  also have "\<dots> = 100 * 2 ^ 46 - 2"
    by (rule nearestEven_add_small) simp_all
  finally have "nearestEven (x / pow2 (6 - 52)) = 100 * 2 ^ 46 - 2" .
  moreover have "binary64 x
      = of_int (nearestEven (x / pow2 (6 - 52))) * pow2 (6 - 52)"
    by (rule binary64_eval) (simp_all add: xv pow2_numeral)
  ultimately have "binary64 x = of_int (100 * 2 ^ 46 - 2) * pow2 (6 - 52)"
    by simp
  then show ?thesis
    by (simp add: x_def pow2_neg_numeral)
qed

lemma score_at_largest_draw:
  "binary64 (- 1000 + binary64 ((1 - pow2 (- 52)) * 100)) = - 900"
proof -
  define y :: real where "y = 900 + 1 / 2 ^ 45"
  have eq: "y / pow2 (9 - 52) = of_int (900 * 2 ^ 43) + 1 / 4"
    by (simp add: y_def pow2_neg_numeral)
  have "nearestEven (y / pow2 (9 - 52)) = nearestEven (of_int (900 * 2 ^ 43) + 1 / 4)"
    by (simp only: eq)
  also have "\<dots> = 900 * 2 ^ 43"
    by (rule nearestEven_add_small) simp_all
  finally have "nearestEven (y / pow2 (9 - 52)) = 900 * 2 ^ 43" .
  moreover have "binary64 y = of_int (nearestEven (y / pow2 (9 - 52))) * pow2 (9 - 52)"
    by (rule binary64_eval) (simp_all add: y_def pow2_numeral)
  ultimately have "binary64 y = of_int (900 * 2 ^ 43) * pow2 (9 - 52)"
    by simp
  then have "binary64 y = 900"
    by (simp add: pow2_neg_numeral)
  then have "binary64 (- y) = - 900"
    by (simp add: binary64_minus)
  moreover have "- 1000 + binary64 ((1 - pow2 (- 52)) * 100) = - y"
    by (subst largest_jitter) (simp add: y_def)
  ultimately show ?thesis by simp
qed

text \<open>
  With the draw \<open>2^-52\<close> the product \<open>100 / 2^52\<close> is a double and the sum rounds to
  -1000, the score of the draw 0: two draws can give one score.
\<close>

lemma score_at_small_draw:
  "binary64 (- 1000 + binary64 (pow2 (- 52) * 100)) = - 1000"
proof -
  define x :: real where "x = pow2 (- 52) * 100"
  have xv: "x = 100 / 2 ^ 52"
    by (simp add: x_def pow2_neg_numeral)
  have eq: "x / pow2 (- 46 - 52) = of_int (100 * 2 ^ 46)"
    by (simp add: xv pow2_neg_numeral)
  have "nearestEven (x / pow2 (- 46 - 52)) = 100 * 2 ^ 46"
    by (simp only: eq nearestEven_int)
  moreover have "binary64 x
      = of_int (nearestEven (x / pow2 (- 46 - 52))) * pow2 (- 46 - 52)"
    by (rule binary64_eval) (simp_all add: xv pow2_neg_numeral)
  ultimately have "binary64 x = of_int (100 * 2 ^ 46) * pow2 (- 46 - 52)"
    by simp
  then have bx: "binary64 x = 100 / 2 ^ 52"
    by (simp add: pow2_neg_numeral)
  define y :: real where "y = 1000 - 100 / 2 ^ 52"
  have eq: "y / pow2 (9 - 52) = of_int (1000 * 2 ^ 43) - 25 / 128"
    by (simp add: y_def pow2_neg_numeral)
  have "nearestEven (y / pow2 (9 - 52)) = nearestEven (of_int (1000 * 2 ^ 43) - 25 / 128)"
    by (simp only: eq)
  also have "\<dots> = 1000 * 2 ^ 43"
    by (rule nearestEven_sub_small) simp_all
  finally have "nearestEven (y / pow2 (9 - 52)) = 1000 * 2 ^ 43" .
  moreover have "binary64 y = of_int (nearestEven (y / pow2 (9 - 52))) * pow2 (9 - 52)"
    by (rule binary64_eval) (simp_all add: y_def pow2_numeral)
  ultimately have "binary64 y = of_int (1000 * 2 ^ 43) * pow2 (9 - 52)"
    by simp
  then have "binary64 y = 1000"
    by (simp add: pow2_neg_numeral)
  then have "binary64 (- y) = - 1000"
    by (simp add: binary64_minus)
  moreover have "- 1000 + binary64 (pow2 (- 52) * 100) = - y"
    by (subst bx [unfolded x_def]) (simp add: y_def)
  ultimately show ?thesis by simp
qed

subsection \<open>The score of a seen question\<close>

lemma intervalOf_bound:
  assumes "0 \<le> l" "l \<le> 5"
  shows "intervalOf l + l * 10 \<le> 100"
proof -
  from assms have "l = 0 \<or> l = 1 \<or> l = 2 \<or> l = 3 \<or> l = 4 \<or> l = 5" by arith
  then show ?thesis
    by (auto simp: intervalOf_def INTERVALS_def)
qed

lemma seen_score_bound:
  assumes "seenInRange s q pos"
  shows "- 899 \<le> calculatePriority s q pos r"
proof -
  define d where "d = getSpacedRepData s q"
  from assms have seen: "seenCount d \<noteq> 0" and lv: "0 \<le> level d" "level d \<le> 5"
    and far: "- 799 \<le> pos - (case lastSeenPosition d of None \<Rightarrow> 0 | Some p \<Rightarrow> p)"
    by (simp_all add: seenInRange_def d_def Let_def)
  have "intervalOf (level d) + level d * 10 \<le> 100"
    using lv by (rule intervalOf_bound)
  with far have "- 899 \<le> pos - (case lastSeenPosition d of None \<Rightarrow> 0 | Some p \<Rightarrow> p)
      - intervalOf (level d) - level d * 10"
    by linarith
  then have "(- 899 :: real) \<le> real_of_int (pos
      - (case lastSeenPosition d of None \<Rightarrow> 0 | Some p \<Rightarrow> p)
      - intervalOf (level d) - level d * 10)"
    by linarith
  with seen show ?thesis
    by (simp add: calculatePriority_def Let_def d_def [symmetric])
qed

lemma never_seen_before_seen:
  assumes "neverSeen s q1" "r1 < 1" "seenInRange s q2 pos2"
  shows "calculatePriority s q1 pos1 r1 < calculatePriority s q2 pos2 r2"
proof -
  have "calculatePriority s q1 pos1 r1 \<le> - 900"
    using assms(1,2) by (rule never_seen_score_upper)
  also have "(- 900 :: real) < - 899" by simp
  also have "- 899 \<le> calculatePriority s q2 pos2 r2"
    using assms(3) by (rule seen_score_bound)
  finally show ?thesis .
qed

subsection \<open>The shuffle permutes its argument\<close>

lemma draw_index:
  assumes "unitDraws rnd" "Suc i + 1 \<le> 2 ^ 53"
  shows "nat \<lfloor>binary64 (rnd k * real (Suc i + 1))\<rfloor> \<le> Suc i"
proof -
  from assms(1) have r: "isDouble (rnd k)" "0 \<le> rnd k" "rnd k < 1"
    by (simp_all add: unitDraws_def)
  have "nat \<lfloor>binary64 (rnd k * real (Suc i + 1))\<rfloor> < Suc i + 1"
    using r assms(2) by (intro random_index) simp_all
  then show ?thesis by simp
qed

lemma shuffle_loop_set:
  assumes "unitDraws rnd"
  shows "length xs \<le> 2 ^ 53 \<Longrightarrow> i < length xs \<or> i = 0 \<Longrightarrow>
    set (fst (shuffle_loop rnd k i xs)) = set xs"
proof (induction i arbitrary: k xs)
  case 0
  show ?case by simp
next
  case (Suc i)
  then have len: "Suc i < length xs" by simp
  with Suc.prems(1) have small: "Suc i + 1 \<le> 2 ^ 53" by simp
  define j where "j = nat \<lfloor>binary64 (rnd k * real (Suc i + 1))\<rfloor>"
  have j: "j < length xs"
    using draw_index [OF assms small, of k] len by (simp add: j_def)
  have "set (xs[Suc i := xs ! j, j := xs ! Suc i]) = set xs"
    using len j by (rule set_swap)
  moreover have "i < length (xs[Suc i := xs ! j, j := xs ! Suc i])"
    using len by simp
  moreover have "length (xs[Suc i := xs ! j, j := xs ! Suc i]) \<le> 2 ^ 53"
    using Suc.prems(1) by simp
  ultimately have "set (fst (shuffle_loop rnd (Suc k) i (xs[Suc i := xs ! j, j := xs ! Suc i])))
      = set xs"
    using Suc.IH [of "xs[Suc i := xs ! j, j := xs ! Suc i]" "Suc k"] by simp
  then show ?case by (simp add: j_def Let_def)
qed

lemma shuffle_set:
  assumes "unitDraws rnd" "length xs \<le> 2 ^ 53"
  shows "set (fst (shuffle rnd k xs)) = set xs"
  unfolding shuffle_def
  by (rule shuffle_loop_set [OF assms]) (cases xs; simp)

subsection \<open>What the scoring pass records\<close>

lemma scoreAll_qids: "map s_qid (fst (scoreAll rnd k s ids)) = ids"
  by (induction ids arbitrary: k) (simp_all add: Let_def)

lemma scoreAll_wellScored:
  "x \<in> set (fst (scoreAll rnd k s ids)) \<Longrightarrow> wellScored rnd s x"
proof (induction ids arbitrary: k)
  case Nil
  then show ?case by simp
next
  case (Cons q ids)
  then show ?case
    by (auto simp: Let_def wellScored_def)
qed

lemma selected_wellScored:
  assumes "x \<in> set (selectForSession n rnd s)"
  shows "wellScored rnd s x"
proof -
  from assms have "x \<in> set (sort_key s_priority (fst (scoreAll rnd 0 s (allQuestionIds s))))"
    by (auto simp: selectForSession_def Let_def dest: in_set_takeD)
  then show ?thesis
    by (simp add: scoreAll_wellScored)
qed

lemma selected_length:
  "length (selectForSession n rnd s) \<le> length (allQuestionIds s)"
  by (simp add: selectForSession_def Let_def)

lemma tier_length:
  assumes "jsArray (allQuestionIds s)"
  shows "length (map s_qid (filter P (selectForSession n rnd s))) \<le> 2 ^ 53"
proof -
  have "length (map s_qid (filter P (selectForSession n rnd s)))
      \<le> length (selectForSession n rnd s)"
    by simp
  also have "\<dots> \<le> length (allQuestionIds s)"
    by (rule selected_length)
  also have "\<dots> \<le> 2 ^ 32"
    using assms by (simp add: jsArray_def)
  also have "(2 :: nat) ^ 32 \<le> 2 ^ 53"
    by simp
  finally show ?thesis .
qed

subsection \<open>The tiers of the queue\<close>

lemma queue_tiers:
  assumes "unitDraws rnd" "jsArray (allQuestionIds s)"
  shows "\<exists>U M R. generateSmartQueue n rnd s = U @ M @ R
     \<and> set U = s_qid ` {x \<in> set (selectForSession n rnd s). isUrgent x}
     \<and> set M = s_qid ` {x \<in> set (selectForSession n rnd s). isModerate x}
     \<and> set R = s_qid ` {x \<in> set (selectForSession n rnd s). isReview x}"
proof (cases "allQuestionIds s = []")
  case True
  then have "generateSmartQueue n rnd s = []" "selectForSession n rnd s = []"
    by (simp_all add: generateSmartQueue_def selectForSession_def)
  then show ?thesis by simp
next
  case False
  define sel where "sel = selectForSession n rnd s"
  define k0 where "k0 = snd (scoreAll rnd 0 s (allQuestionIds s))"
  define u where "u = shuffle rnd k0 (map s_qid (filter isUrgent sel))"
  define m where "m = shuffle rnd (snd u) (map s_qid (filter isModerate sel))"
  define r where "r = shuffle rnd (snd m) (map s_qid (filter isReview sel))"
  have q: "generateSmartQueue n rnd s = fst u @ fst m @ fst r"
    using False
    by (simp add: generateSmartQueue_def shuffleWithPriority_def Let_def sel_def k0_def
        u_def m_def r_def)
  have "set (fst u) = s_qid ` {x \<in> set sel. isUrgent x}"
    "set (fst m) = s_qid ` {x \<in> set sel. isModerate x}"
    "set (fst r) = s_qid ` {x \<in> set sel. isReview x}"
    by (simp_all only: u_def m_def r_def sel_def
        shuffle_set [OF assms(1) tier_length [OF assms(2)]] set_map set_filter)
  with q show ?thesis
    unfolding sel_def by blast
qed

lemma queue_set:
  assumes "unitDraws rnd" "jsArray (allQuestionIds s)"
  shows "set (generateSmartQueue n rnd s) = s_qid ` set (selectForSession n rnd s)"
proof -
  from queue_tiers [OF assms, of n] obtain U M R where
    q: "generateSmartQueue n rnd s = U @ M @ R"
    and U: "set U = s_qid ` {x \<in> set (selectForSession n rnd s). isUrgent x}"
    and M: "set M = s_qid ` {x \<in> set (selectForSession n rnd s). isModerate x}"
    and R: "set R = s_qid ` {x \<in> set (selectForSession n rnd s). isReview x}"
    by (elim exE conjE) (rule that)
  have cover: "{x \<in> set (selectForSession n rnd s). isUrgent x}
      \<union> {x \<in> set (selectForSession n rnd s). isModerate x}
      \<union> {x \<in> set (selectForSession n rnd s). isReview x}
      = set (selectForSession n rnd s)"
    by (auto simp: isModerate_def isReview_def)
  have "set (U @ M @ R) = set U \<union> set M \<union> set R"
    by auto
  also have "\<dots> = s_qid ` set (selectForSession n rnd s)"
    unfolding U M R image_Un [symmetric] cover by (rule refl)
  finally show ?thesis
    by (simp only: q)
qed

lemma never_seen_precede_later_tiers:
  assumes draws: "unitDraws rnd"
    and arr: "jsArray (allQuestionIds s)"
    and i: "i < length (generateSmartQueue n rnd s)"
    and j: "j < length (generateSmartQueue n rnd s)"
    and a: "neverSeen s (generateSmartQueue n rnd s ! i)"
    and b: "\<not> neverSeen s (generateSmartQueue n rnd s ! j)"
    and lv: "2 \<le> level (getSpacedRepData s (generateSmartQueue n rnd s ! j))"
  shows "i < j"
proof -
  from queue_tiers [OF draws arr, of n] obtain U M R where
    q: "generateSmartQueue n rnd s = U @ M @ R"
    and U: "set U = s_qid ` {x \<in> set (selectForSession n rnd s). isUrgent x}"
    and M: "set M = s_qid ` {x \<in> set (selectForSession n rnd s). isModerate x}"
    and R: "set R = s_qid ` {x \<in> set (selectForSession n rnd s). isReview x}"
    by (elim exE conjE) (rule that)
  have later: "\<not> neverSeen s y" if "y \<in> set (M @ R)" for y
  proof -
    from that M R obtain x where x: "x \<in> set (selectForSession n rnd s)" "s_qid x = y"
      and nu: "\<not> isUrgent x"
      by (auto simp: isModerate_def isReview_def)
    from selected_wellScored [OF x(1)] x(2) have "s_data x = getSpacedRepData s y"
      by (simp add: wellScored_def)
    with nu show ?thesis
      by (simp add: isUrgent_def neverSeen_def)
  qed
  have first: "neverSeen s y \<or> level (getSpacedRepData s y) \<le> 1" if "y \<in> set U" for y
  proof -
    from that U obtain x where x: "x \<in> set (selectForSession n rnd s)" "s_qid x = y"
      and ur: "isUrgent x"
      by auto
    from selected_wellScored [OF x(1)] x(2) have "s_data x = getSpacedRepData s y"
      by (simp add: wellScored_def)
    with ur show ?thesis
      by (simp add: isUrgent_def neverSeen_def)
  qed
  have i_in: "i < length U"
  proof (rule ccontr)
    assume "\<not> i < length U"
    then have "(U @ M @ R) ! i = (M @ R) ! (i - length U)" "i - length U < length (M @ R)"
      using i by (simp_all add: q nth_append)
    then have "(U @ M @ R) ! i \<in> set (M @ R)"
      using nth_mem [of "i - length U" "M @ R"] by simp
    from later [OF this] a show False by (simp add: q)
  qed
  have j_out: "\<not> j < length U"
  proof
    assume "j < length U"
    then have "(U @ M @ R) ! j \<in> set U"
      by (simp add: nth_append)
    from first [OF this] b lv show False by (simp add: q)
  qed
  from i_in j_out show ?thesis by simp
qed

lemma never_seen_selected_first:
  assumes draws: "unitDraws rnd"
    and arr: "jsArray (allQuestionIds s)"
    and range: "recordsInRange s"
    and a: "a \<in> set (allQuestionIds s)" "neverSeen s a"
    and b: "b \<in> set (generateSmartQueue n rnd s)" "\<not> neverSeen s b"
  shows "a \<in> set (generateSmartQueue n rnd s)"
proof -
  define scored where "scored = fst (scoreAll rnd 0 s (allQuestionIds s))"
  define sorted_l where "sorted_l = sort_key s_priority scored"
  define N where "N = min n (length (allQuestionIds s))"
  have sel: "selectForSession n rnd s = take N sorted_l"
    by (simp add: selectForSession_def Let_def scored_def sorted_l_def N_def)
  have set_sorted: "set sorted_l = set scored"
    by (simp add: sorted_l_def)
  have srt: "sorted (map s_priority sorted_l)"
    by (simp add: sorted_l_def)
  have ws: "wellScored rnd s x" if "x \<in> set scored" for x
    using that unfolding scored_def by (rule scoreAll_wellScored)
  have qids: "map s_qid scored = allQuestionIds s"
    by (simp add: scored_def scoreAll_qids)
  from b(1) obtain x where x: "x \<in> set (take N sorted_l)" "s_qid x = b"
    by (auto simp: queue_set [OF draws arr] sel)
  then obtain ix where ix: "ix < N" "ix < length sorted_l" "sorted_l ! ix = x"
    by (auto simp: in_set_conv_nth)
  from a(1) qids have "a \<in> set (map s_qid scored)"
    by simp
  then obtain y where y: "y \<in> set scored" "s_qid y = a"
    by auto
  then have "y \<in> set sorted_l"
    by (simp add: set_sorted)
  then obtain iy where iy: "iy < length sorted_l" "sorted_l ! iy = y"
    by (auto simp: in_set_conv_nth)
  have xin: "x \<in> set scored"
    using nth_mem [OF ix(2)] ix(3) set_sorted by simp
  then have "s_qid x \<in> set (map s_qid scored)"
    by simp
  then have "b \<in> set (allQuestionIds s)"
    by (simp only: x(2) qids)
  with range b(2) have bRange: "seenInRange s b 0"
    by (auto simp: recordsInRange_def list_all_iff)
  from ws [OF xin] x(2) obtain kx where px: "s_priority x = calculatePriority s b 0 (rnd kx)"
    by (auto simp: wellScored_def)
  from ws [OF y(1)] y(2) obtain ky where py: "s_priority y = calculatePriority s a 0 (rnd ky)"
    by (auto simp: wellScored_def)
  from draws have "rnd ky < 1" by (simp add: unitDraws_def)
  from never_seen_before_seen [OF a(2) this bRange, of 0 "rnd kx"]
  have lt: "s_priority y < s_priority x"
    by (simp add: px py)
  have "iy < N"
  proof (rule ccontr)
    assume "\<not> iy < N"
    with ix(1) have "ix \<le> iy" by simp
    with srt iy(1) have "map s_priority sorted_l ! ix \<le> map s_priority sorted_l ! iy"
      by (intro sorted_nth_mono) simp_all
    with ix iy lt show False by simp
  qed
  with iy have "iy < length (take N sorted_l)" "take N sorted_l ! iy = y"
    by simp_all
  then have "y \<in> set (take N sorted_l)"
    using nth_mem by blast
  with y(2) show ?thesis
    by (auto simp: queue_set [OF draws arr] sel)
qed

subsection \<open>The claim and its correction\<close>

lemma zero_draws: "unitDraws (\<lambda>k. 0)"
  by (simp add: unitDraws_def isDouble_def)

lemma exampleMixed_ids: "allQuestionIds exampleMixed = [1, 2]"
  by (simp add: exampleMixed_def initialState_def)

lemma exampleMixed_records:
  "getSpacedRepData exampleMixed 1
     = \<lparr>level = 0, lastSeen = 0, seenCount = 0, lastSeenPosition = None\<rparr>"
  "getSpacedRepData exampleMixed 2
     = \<lparr>level = 0, lastSeen = 900, seenCount = 1, lastSeenPosition = None\<rparr>"
  by (simp_all add: exampleMixed_def initialState_def getSpacedRepData_def)

lemma exampleMixed_scores:
  "scoreAll (\<lambda>k. 0) 0 exampleMixed [1, 2] =
     ([\<lparr>s_qid = 1, s_priority = - 1000,
        s_data = \<lparr>level = 0, lastSeen = 0, seenCount = 0, lastSeenPosition = None\<rparr>\<rparr>,
       \<lparr>s_qid = 2, s_priority = - 2,
        s_data = \<lparr>level = 0, lastSeen = 900, seenCount = 1, lastSeenPosition = None\<rparr>\<rparr>], 1)"
  by (simp add: exampleMixed_records calculatePriority_def intervalOf_def INTERVALS_def Let_def
      binary64_m1000)

lemma exampleMixed_selected:
  "selectForSession 30 (\<lambda>k. 0) exampleMixed =
     [\<lparr>s_qid = 1, s_priority = - 1000,
        s_data = \<lparr>level = 0, lastSeen = 0, seenCount = 0, lastSeenPosition = None\<rparr>\<rparr>,
       \<lparr>s_qid = 2, s_priority = - 2,
        s_data = \<lparr>level = 0, lastSeen = 900, seenCount = 1, lastSeenPosition = None\<rparr>\<rparr>]"
  by (simp add: selectForSession_def exampleMixed_ids exampleMixed_scores Let_def
      del: scoreAll.simps)

lemma exampleMixed_queue: "generateSmartQueue 30 (\<lambda>k. 0) exampleMixed = [2, 1]"
  by (simp add: generateSmartQueue_def exampleMixed_ids exampleMixed_selected
      exampleMixed_scores shuffleWithPriority_def isUrgent_def isModerate_def isReview_def
      shuffle_def Let_def del: scoreAll.simps)



text \<open>
  On the example progress with every random number 0, the scores are -100, -28 and -2
  for the seen questions 1, 2 and 3 and -1000 for the new questions 4 and 5; the queue
  is 5, 3, 4, 2, 1. With the draw 1/2 the score of a new question is -950.
\<close>

lemma exampleProgress_ids: "allQuestionIds exampleProgress = [1, 2, 3, 4, 5]"
  by (simp add: exampleProgress_def initialState_def)

lemma exampleProgress_records:
  "getSpacedRepData exampleProgress 1
     = \<lparr>level = 5, lastSeen = 900, seenCount = 4, lastSeenPosition = None\<rparr>"
  "getSpacedRepData exampleProgress 2
     = \<lparr>level = 2, lastSeen = 900, seenCount = 2, lastSeenPosition = None\<rparr>"
  "getSpacedRepData exampleProgress 3
     = \<lparr>level = 0, lastSeen = 900, seenCount = 1, lastSeenPosition = None\<rparr>"
  "getSpacedRepData exampleProgress 4
     = \<lparr>level = 0, lastSeen = 0, seenCount = 0, lastSeenPosition = None\<rparr>"
  "getSpacedRepData exampleProgress 5
     = \<lparr>level = 0, lastSeen = 0, seenCount = 0, lastSeenPosition = None\<rparr>"
  by (simp_all add: exampleProgress_def initialState_def getSpacedRepData_def)

lemma exampleProgress_scores:
  "scoreAll (\<lambda>k. 0) 0 exampleProgress [1, 2, 3, 4, 5] =
     ([\<lparr>s_qid = 1, s_priority = - 100, s_data = getSpacedRepData exampleProgress 1\<rparr>,
       \<lparr>s_qid = 2, s_priority = - 28, s_data = getSpacedRepData exampleProgress 2\<rparr>,
       \<lparr>s_qid = 3, s_priority = - 2, s_data = getSpacedRepData exampleProgress 3\<rparr>,
       \<lparr>s_qid = 4, s_priority = - 1000, s_data = getSpacedRepData exampleProgress 4\<rparr>,
       \<lparr>s_qid = 5, s_priority = - 1000, s_data = getSpacedRepData exampleProgress 5\<rparr>], 2)"
  by (simp add: exampleProgress_records calculatePriority_def intervalOf_def INTERVALS_def
      Let_def binary64_m1000)

lemma exampleProgress_selected:
  "selectForSession 30 (\<lambda>k. 0) exampleProgress =
     [\<lparr>s_qid = 4, s_priority = - 1000, s_data = getSpacedRepData exampleProgress 4\<rparr>,
      \<lparr>s_qid = 5, s_priority = - 1000, s_data = getSpacedRepData exampleProgress 5\<rparr>,
      \<lparr>s_qid = 1, s_priority = - 100, s_data = getSpacedRepData exampleProgress 1\<rparr>,
      \<lparr>s_qid = 2, s_priority = - 28, s_data = getSpacedRepData exampleProgress 2\<rparr>,
      \<lparr>s_qid = 3, s_priority = - 2, s_data = getSpacedRepData exampleProgress 3\<rparr>]"
  by (simp add: selectForSession_def exampleProgress_ids exampleProgress_scores Let_def
      del: scoreAll.simps)

lemma exampleProgress_queue:
  "generateSmartQueue 30 (\<lambda>k. 0) exampleProgress = [5, 3, 4, 2, 1]"
  by (simp add: generateSmartQueue_def exampleProgress_ids exampleProgress_selected
      exampleProgress_scores exampleProgress_records shuffleWithPriority_def isUrgent_def
      isModerate_def isReview_def shuffle_def Let_def del: scoreAll.simps)

lemma binary64_50: "binary64 50 = 50"
  using binary64_of_int [of 50] by simp

lemma binary64_m950: "binary64 (- 950) = - 950"
  using binary64_of_int [of "- 950"] by simp


section \<open>A percentage that double arithmetic rounds down\<close>

text \<open>
  23 correct answers of 40 are 57.5 per cent, but the quotient 23 / 40 is rounded to
  a double just below 0.575 and the product to one just below 57.5, so the code
  reports 57.
\<close>

lemma pow2_m1: "pow2 (- 1) = 1 / 2"
  by (simp add: pow2_def powr_minus_divide)

lemma percent_23_of_40: "calcPercent 23 40 = 57"
proof -
  define x :: real where "x = 23 / 40"
  have eq1: "x / pow2 (- 1 - 52) = of_int 5179139571476070 + 2 / 5"
    by (simp add: x_def pow2_neg_numeral)
  have "nearestEven (x / pow2 (- 1 - 52)) = nearestEven (of_int 5179139571476070 + 2 / 5)"
    by (simp only: eq1)
  also have "\<dots> = 5179139571476070"
    by (rule nearestEven_add_small) simp_all
  finally have n1: "nearestEven (x / pow2 (- 1 - 52)) = 5179139571476070" .
  have e1: "binary64 x = of_int (nearestEven (x / pow2 (- 1 - 52))) * pow2 (- 1 - 52)"
    by (rule binary64_eval) (simp_all add: x_def pow2_m1)
  have b1: "binary64 x = 5179139571476070 / 2 ^ 53"
    by (subst e1, subst n1) (simp add: pow2_neg_numeral)
  define y :: real where "y = 5179139571476070 / 2 ^ 53 * 100"
  have eq2: "y / pow2 (5 - 52) = of_int 8092405580431359 + 3 / 8"
    by (simp add: y_def pow2_neg_numeral)
  have "nearestEven (y / pow2 (5 - 52)) = nearestEven (of_int 8092405580431359 + 3 / 8)"
    by (simp only: eq2)
  also have "\<dots> = 8092405580431359"
    by (rule nearestEven_add_small) simp_all
  finally have n2: "nearestEven (y / pow2 (5 - 52)) = 8092405580431359" .
  have e2: "binary64 y = of_int (nearestEven (y / pow2 (5 - 52))) * pow2 (5 - 52)"
    by (rule binary64_eval) (simp_all add: y_def pow2_numeral)
  have b2: "binary64 y = 8092405580431359 / 2 ^ 47"
    by (subst e2, subst n2) (simp add: pow2_neg_numeral)
  have "percentOf 23 40 = \<lfloor>binary64 y + 1 / 2\<rfloor>"
    unfolding percentOf_def y_def b1 [symmetric] x_def by simp
  also have "\<dots> = 57"
    unfolding b2 by (simp add: floor_eq_iff)
  finally show ?thesis
    by (simp add: calcPercent_def)
qed

end
